theory Spec2Isabelle
  imports Complex_Main
begin

section \<open>Geofence evaluation\<close>

text \<open>
  The functions of \<^verbatim>\<open>functions/src/index.ts\<close> are embedded one by one, under their
  own names. JavaScript numbers are modelled by the reals: the arithmetic of
  \<^verbatim>\<open>calculateDistance\<close> is the exact one, and the comparisons of a distance with the
  constants 10, 25 and 50 are the comparisons of the source. The doubles of the runtime
  round every operation, which this model does not follow: for two nearly antipodal
  positions the haversine term of the code can round to a number above 1, its
  \<^verbatim>\<open>Math.sqrt(1-a)\<close> is then \<^verbatim>\<open>NaN\<close> and so is the distance the code returns, where the
  exact formula gives half the circumference. What is proved below of
  \<^verbatim>\<open>calculateDistance\<close> is proved of the exact formula.
\<close>

text \<open>
  \<^verbatim>\<open>Math.atan2(y, x)\<close>: the angle of the point \<open>(x, y)\<close>, with the case analysis of
  the ECMAScript definition.
\<close>

definition atan2 :: "real \<Rightarrow> real \<Rightarrow> real" where
  "atan2 y x =
     (if 0 < x then arctan (y / x)
      else if x < 0 then (if 0 \<le> y then arctan (y / x) + pi else arctan (y / x) - pi)
      else if 0 < y then pi / 2
      else if y < 0 then - (pi / 2)
      else 0)"

text \<open>\<^verbatim>\<open>calculateDistance\<close> (lines 61 to 71), haversine on a sphere of radius 6371000 m.\<close>

definition calculateDistance :: "real \<Rightarrow> real \<Rightarrow> real \<Rightarrow> real \<Rightarrow> real" where
  "calculateDistance lat1 lon1 lat2 lon2 =
     (let R = 6371000;
          dLat = (lat2 - lat1) * pi / 180;
          dLon = (lon2 - lon1) * pi / 180;
          a = sin (dLat / 2) * sin (dLat / 2) +
              cos (lat1 * pi / 180) * cos (lat2 * pi / 180) *
              sin (dLon / 2) * sin (dLon / 2);
          c = 2 * atan2 (sqrt a) (sqrt (1 - a))
      in R * c)"

datatype severity = low | medium | high

text \<open>
  The two tests the scheduled check makes on a distance (lines 793 and 810):
  \<^verbatim>\<open>distance > 10\<close> and
  \<^verbatim>\<open>distance > 50 ? 'high' : distance > 25 ? 'medium' : 'low'\<close>.
\<close>

definition moved :: "real \<Rightarrow> bool" where
  "moved distance = (distance > 10)"

definition severityOf :: "real \<Rightarrow> severity" where
  "severityOf distance = (if distance > 50 then high else if distance > 25 then medium else low)"

section \<open>Data model\<close>

text \<open>
  Firestore documents are records; a field that a document may lack is an option.
  A string of a request body or of a query that is absent is the empty string: both are
  falsy for the \<^verbatim>\<open>!x\<close> and \<^verbatim>\<open>x || d\<close> of the source. Server timestamps are naturals.
\<close>

record coords =
  lat :: real
  lon :: real

record lock_position = coords +
  uncertainty :: "real option"
  serviceType :: "string option"

record led_config =
  red :: nat
  green :: nat
  blue :: nat
  duration_on_msec :: nat
  duration_off_msec :: nat
  repetitions :: nat

text \<open>
  \<^verbatim>\<open>interface MovementAlert\<close>, with the two fields \<^verbatim>\<open>ledActivated\<close> and
  \<^verbatim>\<open>ledActivatedAt\<close> that the handlers add to the stored document.
\<close>

record movement_alert =
  alert_id :: "nat option"
  deviceId :: string
  alertType :: string
  distance :: real
  threshold :: real
  lockedLocation :: coords
  currentLocation :: coords
  lockedAt :: string
  detectedAt :: string
  severity :: severity
  message :: string
  timestamp :: "nat option"
  source :: string
  notificationSent :: bool
  notificationSentAt :: "nat option"
  ledActivated :: bool
  ledActivatedAt :: "nat option"

datatype token_type = expo | fcm

text \<open>\<^verbatim>\<open>interface TokenData\<close>.\<close>

record token_data =
  t_deviceId :: string
  pushToken :: string
  tokenType :: token_type
  userId :: string
  platform :: string
  registeredAt :: nat
  lastUsed :: nat
  active :: bool

text \<open>
  A document of \<^verbatim>\<open>locked_locations\<close>: the fields written by \<^verbatim>\<open>postLockedLocation\<close>,
  then the ones the scheduled check adds with \<^verbatim>\<open>update\<close>.
\<close>

record locked_location_data =
  l_deviceId :: string
  l_lockedAt :: string
  location :: lock_position
  originalLocationData :: "string option"
  status :: string
  l_timestamp :: string
  createdAt :: nat
  updatedAt :: nat
  lastMovementAlert :: "movement_alert option"
  lastAlertAt :: "nat option"
  currentDistance :: "real option"
  alertCount :: "nat option"
  lastCheckedAt :: "nat option"

record lock_history_entry =
  h_data :: locked_location_data
  h_action :: string

record notification_summary_entry =
  s_deviceId :: string
  s_alertType :: string
  fcmTokenCount :: nat
  expoTokenCount :: nat
  fcmSuccess :: bool
  expoSuccess :: bool
  overallSuccess :: bool
  sentAt :: nat
  alertData :: movement_alert

record failed_tokens_entry =
  f_deviceId :: string
  failedTokens :: "string list"
  f_timestamp :: nat

record location_history_entry =
  lh_deviceId :: string
  lh_latest :: bool
  lh_data :: "coords list"
  lh_timestamp :: nat
  lh_source :: string

text \<open>
  What a timer will run when it fires. The source sets one kind of timer only, at lines
  120 to 122: \<^verbatim>\<open>setTimeout(async () => { await turnOffLED(deviceId); }, 60000)\<close>.
\<close>

datatype callback = TurnOffLED string

text \<open>
  The calls that leave the process, in the order they are made: the PATCH of the device
  state on nRF Cloud (with its \<^verbatim>\<open>update_interval\<close>), the timer set with its delay in
  milliseconds and its callback, the topic message, the multicast, the topic subscription
  and the GET of the location history.
\<close>

datatype effect =
    NrfPatch string nat led_config
  | SetTimeout nat callback
  | FcmSend movement_alert
  | FcmMulticast movement_alert "string list"
  | FcmSubscribe string
  | NrfGetHistory string

text \<open>
  The collections of the store and the trace of outside calls. \<^verbatim>\<open>movement_alerts\<close>
  holds its documents newest first, each with its document id, so that
  \<^verbatim>\<open>orderBy('timestamp', 'desc')\<close> reads the list as it is; a fresh id is the number of
  documents so far (no handler deletes an alert). \<^verbatim>\<open>user_push_tokens\<close> is keyed by the
  document id the handler builds. The store itself is taken to answer every request.
\<close>

record world =
  locked_locations :: "string \<rightharpoonup> locked_location_data"
  location_lock_history :: "lock_history_entry list"
  user_push_tokens :: "(string \<times> token_data) list"
  movement_alerts :: "(nat \<times> movement_alert) list"
  notification_summary :: "notification_summary_entry list"
  failed_tokens :: "failed_tokens_entry list"
  location_history :: "location_history_entry list"
  effects :: "effect list"

text \<open>
  What the handlers read from outside: the configured device, the clock, the number
  formatting of the runtime, and the outcome of every outside call. An outcome is indexed
  by the position of the call in the trace, so two calls of one run may differ.
  \<^verbatim>\<open>nrfLocationHistory\<close> is \<open>None\<close> when the request throws, and else the
  \<^verbatim>\<open>items\<close> of the answer (none when the field is missing).
\<close>

record env =
  DEVICE_ID :: string
  serverTimestamp :: nat
  nowISO :: string
  toFixed :: "real \<Rightarrow> nat \<Rightarrow> string"
  nrfPatchOk :: "nat \<Rightarrow> bool"
  nrfLocationHistory :: "nat \<Rightarrow> coords list option"
  fcmSendOk :: "nat \<Rightarrow> bool"
  fcmMulticastThrows :: "nat \<Rightarrow> bool"
  fcmTokenOk :: "nat \<Rightarrow> string \<Rightarrow> bool"

section \<open>Indicator control\<close>

text \<open>\<^verbatim>\<open>controlNRFCloudLED\<close> (lines 74 to 103): the error of the request is caught.\<close>

definition controlNRFCloudLED :: "env \<Rightarrow> string \<Rightarrow> led_config \<Rightarrow> world \<Rightarrow> bool \<times> world" where
  "controlNRFCloudLED e dev ledConfig w =
     (nrfPatchOk e (length (effects w)),
      w\<lparr>effects := effects w @ [NrfPatch dev 60 ledConfig]\<rparr>)"

definition ledAlertConfig :: led_config where
  "ledAlertConfig = \<lparr>red = 0, green = 0, blue = 255, duration_on_msec = 500,
     duration_off_msec = 1000, repetitions = 5\<rparr>"

definition ledOffConfig :: led_config where
  "ledOffConfig = \<lparr>red = 0, green = 0, blue = 0, duration_on_msec = 0,
     duration_off_msec = 0, repetitions = 0\<rparr>"

text \<open>\<^verbatim>\<open>turnOnMovementAlertLED\<close> (lines 106 to 127).\<close>

definition turnOnMovementAlertLED :: "env \<Rightarrow> string \<Rightarrow> world \<Rightarrow> world" where
  "turnOnMovementAlertLED e dev w =
     (let (ok, w1) = controlNRFCloudLED e dev ledAlertConfig w
      in w1\<lparr>effects := effects w1 @ [SetTimeout 60000 (TurnOffLED dev)]\<rparr>)"

text \<open>\<^verbatim>\<open>turnOffLED\<close> (lines 130 to 147), the callback of the timer.\<close>

definition turnOffLED :: "env \<Rightarrow> string \<Rightarrow> world \<Rightarrow> world" where
  "turnOffLED e dev w = snd (controlNRFCloudLED e dev ledOffConfig w)"

text \<open>A timer fires: its callback runs, in the store and after the trace of that moment.\<close>

fun runCallback :: "env \<Rightarrow> callback \<Rightarrow> world \<Rightarrow> world" where
  "runCallback e (TurnOffLED dev) w = turnOffLED e dev w"

section \<open>Notification dispatch\<close>

text \<open>
  \<^verbatim>\<open>sendFCMNotification\<close> (lines 149 to 209): one message to the alert topic; the
  result says whether the send went through.
\<close>

definition sendFCMNotification :: "env \<Rightarrow> movement_alert \<Rightarrow> world \<Rightarrow> bool \<times> world" where
  "sendFCMNotification e movementAlert w =
     (fcmSendOk e (length (effects w)),
      w\<lparr>effects := effects w @ [FcmSend movementAlert]\<rparr>)"

text \<open>
  \<^verbatim>\<open>sendFCMNotificationsToUsers\<close> (lines 213 to 293): nothing for an empty token list;
  else one multicast, and the tokens that failed are stored when there are any. A
  multicast that throws is caught here, and the function returns nothing to its caller.
\<close>

definition sendFCMNotificationsToUsers :: "env \<Rightarrow> movement_alert \<Rightarrow> string list \<Rightarrow> world \<Rightarrow> world" where
  "sendFCMNotificationsToUsers e movementAlert userTokens w =
     (if userTokens = [] then w
      else
        let n = length (effects w);
            w1 = w\<lparr>effects := effects w @ [FcmMulticast movementAlert userTokens]\<rparr>
        in if fcmMulticastThrows e n then w1
           else
             let failed = filter (\<lambda>t. \<not> fcmTokenOk e n t) userTokens
             in if length failed > 0
                then w1\<lparr>failed_tokens := failed_tokens w1 @
                       [\<lparr>f_deviceId = deviceId movementAlert, failedTokens = failed,
                         f_timestamp = serverTimestamp e\<rparr>]\<rparr>
                else w1)"

text \<open>
  The query of lines 306 to 309 (the active token documents of a device) and the two
  lists of lines 326 to 338.
\<close>

definition activeTokenDocs :: "string \<Rightarrow> world \<Rightarrow> (string \<times> token_data) list" where
  "activeTokenDocs dev w =
     filter (\<lambda>(k, d). t_deviceId d = dev \<and> active d) (user_push_tokens w)"

definition fcmTokensOf :: "(string \<times> token_data) list \<Rightarrow> string list" where
  "fcmTokensOf docs = map (pushToken \<circ> snd) (filter (\<lambda>(k, d). tokenType d \<noteq> expo) docs)"

definition expoTokensOf :: "(string \<times> token_data) list \<Rightarrow> string list" where
  "expoTokensOf docs = map (pushToken \<circ> snd) (filter (\<lambda>(k, d). tokenType d = expo) docs)"

text \<open>
  \<^verbatim>\<open>sendMovementAlertNotification\<close> (lines 297 to 397). The Expo branch is commented
  out in the source, so \<^verbatim>\<open>expoSuccess\<close> stays false.
\<close>

definition sendMovementAlertNotification :: "env \<Rightarrow> movement_alert \<Rightarrow> world \<Rightarrow> bool \<times> world" where
  "sendMovementAlertNotification e movementAlert w =
     (let w1 = turnOnMovementAlertLED e (deviceId movementAlert) w;
          tokenSnapshot = activeTokenDocs (deviceId movementAlert) w1
      in if tokenSnapshot = [] then
           (let (sent, w2) = sendFCMNotification e movementAlert w1 in (False, w2))
         else
           let fcmTokens = fcmTokensOf tokenSnapshot;
               expoTokens = expoTokensOf tokenSnapshot;
               (fcmOk, w2) = (if length fcmTokens > 0
                              then (True, sendFCMNotificationsToUsers e movementAlert fcmTokens w1)
                              else (False, w1));
               expoOk = False;
               (sent, w3) = sendFCMNotification e movementAlert w2;
               success = (fcmOk \<or> expoOk)
           in (success,
               w3\<lparr>notification_summary := notification_summary w3 @
                    [\<lparr>s_deviceId = deviceId movementAlert, s_alertType = ''movement_detected'',
                      fcmTokenCount = length fcmTokens, expoTokenCount = length expoTokens,
                      fcmSuccess = fcmOk, expoSuccess = expoOk, overallSuccess = success,
                      sentAt = serverTimestamp e, alertData = movementAlert\<rparr>]\<rparr>))"

section \<open>Lock and token registration\<close>

record location_input =
  in_lat :: real
  in_lon :: real
  in_uncertainty :: "real option"
  in_serviceType :: string

record lock_request =
  q_deviceId :: string
  q_lockedAt :: string
  q_location :: "location_input option"
  q_originalLocationData :: "string option"
  q_status :: string
  q_timestamp :: string

text \<open>The status and the \<^verbatim>\<open>success\<close> field of an answer.\<close>

type_synonym reply = "nat \<times> bool"

text \<open>\<^verbatim>\<open>x || d\<close> on a string.\<close>

definition orElse :: "string \<Rightarrow> string \<Rightarrow> string" where
  "orElse x d = (if x = [] then d else x)"

text \<open>
  The document built at lines 417 to 431. The coordinates of the request are numbers,
  and \<^verbatim>\<open>parseFloat\<close> gives a number back as it is.
\<close>

definition lockedLocationData :: "env \<Rightarrow> lock_request \<Rightarrow> location_input \<Rightarrow> locked_location_data" where
  "lockedLocationData e req loc =
     \<lparr>l_deviceId = q_deviceId req,
      l_lockedAt = orElse (q_lockedAt req) (nowISO e),
      location = \<lparr>lat = in_lat loc, lon = in_lon loc,
         uncertainty = (case in_uncertainty loc of None \<Rightarrow> None
                        | Some u \<Rightarrow> if u = 0 then None else Some u),
         serviceType = (if in_serviceType loc = [] then None
                        else Some (in_serviceType loc))\<rparr>,
      originalLocationData = (case q_originalLocationData req of None \<Rightarrow> None
                              | Some d \<Rightarrow> if d = [] then None else Some d),
      status = orElse (q_status req) ''locked'',
      l_timestamp = orElse (q_timestamp req) (nowISO e),
      createdAt = serverTimestamp e,
      updatedAt = serverTimestamp e,
      lastMovementAlert = None, lastAlertAt = None, currentDistance = None,
      alertCount = None, lastCheckedAt = None\<rparr>"

text \<open>
  \<^verbatim>\<open>postLockedLocation\<close> (lines 399 to 468); a coordinate that is zero is falsy and
  fails the validation.
\<close>

definition postLockedLocation :: "env \<Rightarrow> lock_request \<Rightarrow> world \<Rightarrow> reply \<times> world" where
  "postLockedLocation e req w =
     (case q_location req of
        None \<Rightarrow> ((400, False), w)
      | Some loc \<Rightarrow>
          if q_deviceId req = [] \<or> in_lat loc = 0 \<or> in_lon loc = 0 then ((400, False), w)
          else
            let newData = lockedLocationData e req loc;
                w1 = w\<lparr>locked_locations := (locked_locations w)(q_deviceId req \<mapsto> newData)\<rparr>;
                w2 = w1\<lparr>location_lock_history := location_lock_history w1 @
                        [\<lparr>h_data = newData, h_action = ''lock''\<rparr>]\<rparr>
            in ((200, True), w2))"

record register_request =
  r_deviceId :: string
  r_fcmToken :: string
  r_userId :: string
  r_platform :: string
  r_tokenType :: string

text \<open>\<^verbatim>\<open>s.startsWith(p)\<close> and \<^verbatim>\<open>doc(k).set(v)\<close> on a keyed collection.\<close>

definition startsWith :: "string \<Rightarrow> string \<Rightarrow> bool" where
  "startsWith s p = (take (length p) s = p)"

definition docSet :: "'k \<Rightarrow> 'v \<Rightarrow> ('k \<times> 'v) list \<Rightarrow> ('k \<times> 'v) list" where
  "docSet k v ds = filter (\<lambda>d. fst d \<noteq> k) ds @ [(k, v)]"

text \<open>The document id of a token: \<^verbatim>\<open>`${deviceId}_${fcmToken.substring(0, 20)}`\<close>.\<close>

definition tokenId :: "string \<Rightarrow> string \<Rightarrow> string" where
  "tokenId dev fcmToken = dev @ ''_'' @ take 20 fcmToken"

text \<open>Line 568, and the document stored at lines 573 to 582.\<close>

definition isExpoToken :: "register_request \<Rightarrow> bool" where
  "isExpoToken req =
     (r_tokenType req = ''expo'' \<or> startsWith (r_fcmToken req) ''ExponentPushToken['')"

definition tokenDocument :: "env \<Rightarrow> register_request \<Rightarrow> token_data" where
  "tokenDocument e req =
     \<lparr>t_deviceId = r_deviceId req, pushToken = r_fcmToken req,
      tokenType = (if isExpoToken req then expo else fcm),
      userId = orElse (r_userId req) ''anonymous'',
      platform = orElse (r_platform req) ''unknown'',
      registeredAt = serverTimestamp e, lastUsed = serverTimestamp e,
      active = True\<rparr>"

text \<open>\<^verbatim>\<open>registerFCMToken\<close> (lines 552 to 627); a failed subscription is only logged.\<close>

definition registerFCMToken :: "env \<Rightarrow> register_request \<Rightarrow> world \<Rightarrow> reply \<times> world" where
  "registerFCMToken e req w =
     (if r_deviceId req = [] \<or> r_fcmToken req = [] then ((400, False), w)
      else
        let w1 = w\<lparr>user_push_tokens :=
                   docSet (tokenId (r_deviceId req) (r_fcmToken req)) (tokenDocument e req)
                     (user_push_tokens w)\<rparr>;
            w2 = (if \<not> isExpoToken req
                  then w1\<lparr>effects := effects w1 @ [FcmSubscribe (r_fcmToken req)]\<rparr>
                  else w1)
        in ((200, True), w2))"

section \<open>Alert listing\<close>

text \<open>
  The query of \<^verbatim>\<open>getMovementAlerts\<close>: the device (the configured one when the query
  names none), the limit (10 when it is missing, not a number or zero; a natural here)
  and the severity, used as a filter only when it is one of the three names.
\<close>

record alerts_request =
  a_deviceId :: string
  a_limit :: nat
  a_severity :: string

definition severityFilter :: "string \<Rightarrow> severity option" where
  "severityFilter s =
     (if s = ''low'' then Some low
      else if s = ''medium'' then Some medium
      else if s = ''high'' then Some high
      else None)"

definition listingDevice :: "env \<Rightarrow> alerts_request \<Rightarrow> string" where
  "listingDevice e req = orElse (a_deviceId req) (DEVICE_ID e)"

text \<open>Lines 640 to 656: the documents read, each with its id.\<close>

definition queryAlerts :: "env \<Rightarrow> alerts_request \<Rightarrow> world \<Rightarrow> movement_alert list" where
  "queryAlerts e req w =
     (let dev = listingDevice e req;
          limit = (if a_limit req = 0 then 10 else a_limit req);
          docs = take limit
                   (filter (\<lambda>(i, a). deviceId a = dev \<and>
                              (case severityFilter (a_severity req) of
                                 None \<Rightarrow> True | Some s \<Rightarrow> severity a = s))
                      (movement_alerts w))
      in map (\<lambda>(i, a). a\<lparr>alert_id := Some i\<rparr>) docs)"

text \<open>Lines 666 to 670.\<close>

definition highDistanceAlerts :: "movement_alert list \<Rightarrow> movement_alert list" where
  "highDistanceAlerts alerts =
     filter (\<lambda>alert. distance alert \<noteq> 0 \<and> distance alert > 10 \<and>
                      \<not> notificationSent alert \<and> severity alert \<noteq> low) alerts"

text \<open>
  \<^verbatim>\<open>doc(id).update(...)\<close> of lines 684 to 689 and 829 to 834; on a missing document
  the update throws, which both callers catch and log.
\<close>

definition markNotified :: "env \<Rightarrow> nat \<Rightarrow> world \<Rightarrow> world" where
  "markNotified e i w =
     w\<lparr>movement_alerts :=
         map (\<lambda>(j, a). if j = i
                then (j, a\<lparr>notificationSent := True,
                          notificationSentAt := Some (serverTimestamp e),
                          ledActivated := True,
                          ledActivatedAt := Some (serverTimestamp e)\<rparr>)
                else (j, a))
           (movement_alerts w)\<rparr>"

text \<open>
  The loop of lines 674 to 703 over the alerts picked from the snapshot: its body for
  one alert (\<^verbatim>\<open>notificationSent && alert.id\<close> guards the update), then the loop.
\<close>

definition loopRound :: "env \<Rightarrow> string \<Rightarrow> movement_alert \<Rightarrow> world \<Rightarrow> world" where
  "loopRound e dev alert w =
     (let w1 = turnOnMovementAlertLED e dev w;
          (sent, w2) = sendMovementAlertNotification e alert w1
      in if sent
         then (case alert_id alert of Some i \<Rightarrow> markNotified e i w2 | None \<Rightarrow> w2)
         else w2)"

fun notifyAlerts :: "env \<Rightarrow> string \<Rightarrow> movement_alert list \<Rightarrow> world \<Rightarrow> world" where
  "notifyAlerts e dev [] w = w"
| "notifyAlerts e dev (alert # rest) w = notifyAlerts e dev rest (loopRound e dev alert w)"

record alerts_reply =
  isLocked :: bool
  replyAlertCount :: nat
  highDistanceAlertsCount :: nat
  replyCurrentDistance :: real
  replyLastAlertAt :: "nat option"
  alerts :: "movement_alert list"
  notificationsSent :: nat
  replyLedActivated :: bool

text \<open>\<^verbatim>\<open>getMovementAlerts\<close> (lines 631 to 731).\<close>

definition getMovementAlerts :: "env \<Rightarrow> alerts_request \<Rightarrow> world \<Rightarrow> alerts_reply \<times> world" where
  "getMovementAlerts e req w =
     (let dev = listingDevice e req;
          found = queryAlerts e req w;
          lockData = locked_locations w dev;
          picked = highDistanceAlerts found;
          w1 = notifyAlerts e dev picked w
      in (\<lparr>isLocked = (lockData \<noteq> None),
           replyAlertCount = length found,
           highDistanceAlertsCount = length picked,
           replyCurrentDistance =
             (case lockData of None \<Rightarrow> 0
              | Some l \<Rightarrow> (case currentDistance l of None \<Rightarrow> 0 | Some d \<Rightarrow> d)),
           replyLastAlertAt = (case lockData of None \<Rightarrow> None | Some l \<Rightarrow> lastAlertAt l),
           alerts = found,
           notificationsSent = length picked,
           replyLedActivated = (length picked > 0)\<rparr>, w1))"

section \<open>Scheduled check\<close>

text \<open>The alert built at lines 795 to 815, before it has a document id.\<close>

definition newMovementAlert :: "env \<Rightarrow> locked_location_data \<Rightarrow> coords \<Rightarrow> real \<Rightarrow> movement_alert" where
  "newMovementAlert e lockedData currentItem distance' =
     \<lparr>alert_id = None, deviceId = DEVICE_ID e,
      alertType = ''movement_detected'',
      distance = distance', threshold = 10,
      lockedLocation = \<lparr>lat = lat (location lockedData), lon = lon (location lockedData)\<rparr>,
      currentLocation = \<lparr>lat = lat currentItem, lon = lon currentItem\<rparr>,
      lockedAt = l_lockedAt lockedData,
      detectedAt = nowISO e,
      severity = severityOf distance',
      message = ''Device moved '' @ toFixed e distance' 1 @ ''m away from locked position'',
      timestamp = Some (serverTimestamp e),
      source = ''scheduled_check'',
      notificationSent = False,
      notificationSentAt = None,
      ledActivated = False, ledActivatedAt = None\<rparr>"

text \<open>
  \<^verbatim>\<open>scheduledLocationHistory\<close> (lines 736 to 879), for the configured device. A
  coordinate of the answer that is zero is falsy, as in the source.
\<close>

definition scheduledLocationHistory :: "env \<Rightarrow> world \<Rightarrow> world" where
  "scheduledLocationHistory e w =
     (let dev = DEVICE_ID e;
          w0 = w\<lparr>effects := effects w @ [NrfGetHistory dev]\<rparr>
      in case nrfLocationHistory e (length (effects w)) of
           None \<Rightarrow> w0
         | Some items \<Rightarrow>
             let w1 = w0\<lparr>location_history := location_history w0 @
                        [\<lparr>lh_deviceId = dev, lh_latest = True, lh_data = items,
                          lh_timestamp = serverTimestamp e, lh_source = ''scheduled''\<rparr>]\<rparr>
             in case locked_locations w1 dev of
                  None \<Rightarrow> w1
                | Some lockedData \<Rightarrow>
                    (case items of
                       [] \<Rightarrow> w1
                     | currentItem # others \<Rightarrow>
                         if lat currentItem \<noteq> 0 \<and> lon currentItem \<noteq> 0 then
                           let distance' = calculateDistance
                                        (lat (location lockedData)) (lon (location lockedData))
                                        (lat currentItem) (lon currentItem)
                           in if moved distance' then
                                let movementAlert = newMovementAlert e lockedData currentItem distance';
                                    alertRef = length (movement_alerts w1);
                                    w2 = w1\<lparr>movement_alerts :=
                                             (alertRef, movementAlert) # movement_alerts w1\<rparr>;
                                    w3 = turnOnMovementAlertLED e dev w2;
                                    (sent, w4) = sendMovementAlertNotification e movementAlert w3;
                                    w5 = (if sent then markNotified e alertRef w4 else w4)
                                in (case locked_locations w5 dev of
                                      None \<Rightarrow> w5
                                    | Some l \<Rightarrow>
                                        w5\<lparr>locked_locations := (locked_locations w5)(dev \<mapsto>
                                             l\<lparr>lastMovementAlert := Some movementAlert,
                                               lastAlertAt := Some (serverTimestamp e),
                                               currentDistance := Some distance',
                                               alertCount := Some (case alertCount l of
                                                   None \<Rightarrow> 1 | Some n \<Rightarrow> n + 1)\<rparr>)\<rparr>)
                              else
                                w1\<lparr>locked_locations := (locked_locations w1)(dev \<mapsto>
                                     lockedData\<lparr>lastCheckedAt := Some (serverTimestamp e),
                                       currentDistance := Some distance',
                                       status := ''locked_safe''\<rparr>)\<rparr>
                         else w1))"

section \<open>Observations and example data\<close>

text \<open>What a run added to the trace, and the parts of a trace the properties speak of.\<close>

definition newEffects :: "world \<Rightarrow> world \<Rightarrow> effect list" where
  "newEffects w w' = drop (length (effects w)) (effects w')"

fun isIndicator :: "effect \<Rightarrow> bool" where
  "isIndicator (NrfPatch dev i c) = True"
| "isIndicator (SetTimeout ms cb) = True"
| "isIndicator x = False"

fun isNotification :: "effect \<Rightarrow> bool" where
  "isNotification (FcmSend a) = True"
| "isNotification (FcmMulticast a ts) = True"
| "isNotification x = False"

fun topicSends :: "effect list \<Rightarrow> movement_alert list" where
  "topicSends [] = []"
| "topicSends (FcmSend a # xs) = a # topicSends xs"
| "topicSends (x # xs) = topicSends xs"

text \<open>The multicast a dispatch makes for a list of tokens: none for the empty list.\<close>

definition multicastCall :: "movement_alert \<Rightarrow> string list \<Rightarrow> effect list" where
  "multicastCall a toks = (if toks = [] then [] else [FcmMulticast a toks])"

text \<open>The two outside calls of one indicator activation.\<close>

definition activation :: "string \<Rightarrow> effect list" where
  "activation dev = [NrfPatch dev 60 ledAlertConfig, SetTimeout 60000 (TurnOffLED dev)]"

text \<open>The timers a trace has set, each with its delay and its callback.\<close>

fun timers :: "effect list \<Rightarrow> (nat \<times> callback) list" where
  "timers [] = []"
| "timers (SetTimeout ms cb # xs) = (ms, cb) # timers xs"
| "timers (x # xs) = timers xs"

text \<open>
  The outside calls of one dispatch of an alert (they depend on the store only through the
  registered tokens), and those of the loop of a listing over the alerts it picked.
\<close>

definition dispatchTrace :: "world \<Rightarrow> movement_alert \<Rightarrow> effect list" where
  "dispatchTrace w a =
     activation (deviceId a) @
       multicastCall a (fcmTokensOf (activeTokenDocs (deviceId a) w)) @ [FcmSend a]"

definition listingTrace :: "string \<Rightarrow> world \<Rightarrow> movement_alert list \<Rightarrow> effect list" where
  "listingTrace dev w picked = concat (map (\<lambda>a. activation dev @ dispatchTrace w a) picked)"

text \<open>
  The ids of the picked alerts whose dispatch reports success in the store \<open>w\<close>, in the
  order of the loop.
\<close>

definition notifiedIds :: "world \<Rightarrow> movement_alert list \<Rightarrow> nat list" where
  "notifiedIds w picked =
     concat (map (\<lambda>a. case alert_id a of None \<Rightarrow> [] | Some i \<Rightarrow>
                if fcmTokensOf (activeTokenDocs (deviceId a) w) \<noteq> [] then [i] else []) picked)"

text \<open>
  Data for the examples: an environment where every outside call succeeds and the device
  reports the position \<open>(31864/31855, 1)\<close>, which is \<open>10 * pi\<close> metres north of
  \<open>(1, 1)\<close>; the same with another reported latitude; one where every PATCH and every
  send fails; the empty store. The number formatting of these environments gives a fixed string: it is
  used for the message of an alert only.
\<close>

definition testEnv :: env where
  "testEnv = \<lparr>DEVICE_ID = ''dev1'', serverTimestamp = 7, nowISO = ''2024-01-01T00:00:00.000Z'',
     toFixed = (\<lambda>x n. ''31.4''), nrfPatchOk = (\<lambda>n. True),
     nrfLocationHistory = (\<lambda>n. Some [\<lparr>lat = 31864 / 31855, lon = 1\<rparr>]),
     fcmSendOk = (\<lambda>n. True), fcmMulticastThrows = (\<lambda>n. False),
     fcmTokenOk = (\<lambda>n t. True)\<rparr>"

definition reportAt :: "real \<Rightarrow> env" where
  "reportAt x = testEnv\<lparr>nrfLocationHistory := (\<lambda>n. Some [\<lparr>lat = x, lon = 1\<rparr>])\<rparr>"

definition failingEnv :: env where
  "failingEnv = testEnv\<lparr>nrfPatchOk := (\<lambda>n. False), fcmSendOk := (\<lambda>n. False),
     fcmTokenOk := (\<lambda>n t. False)\<rparr>"

definition emptyWorld :: world where
  "emptyWorld = \<lparr>locked_locations = Map.empty, location_lock_history = [],
     user_push_tokens = [], movement_alerts = [], notification_summary = [],
     failed_tokens = [], location_history = [], effects = []\<rparr>"

definition lockAt :: "real \<Rightarrow> real \<Rightarrow> lock_request" where
  "lockAt la lo = \<lparr>q_deviceId = ''dev1'', q_lockedAt = [],
     q_location = Some \<lparr>in_lat = la, in_lon = lo, in_uncertainty = None, in_serviceType = []\<rparr>,
     q_originalLocationData = None, q_status = [], q_timestamp = []\<rparr>"

text \<open>The store after the device was locked at \<open>(1, 1)\<close>.\<close>

definition lockedWorld :: world where
  "lockedWorld = snd (postLockedLocation testEnv (lockAt 1 1) emptyWorld)"

definition registration :: "string \<Rightarrow> register_request" where
  "registration tok = \<lparr>r_deviceId = ''dev1'', r_fcmToken = tok, r_userId = [],
     r_platform = [], r_tokenType = []\<rparr>"

text \<open>
  The store after a scheduled check found the locked device at latitude \<open>x\<close>, and the
  alert that check builds: at \<open>159293/159275\<close> the device is \<open>4 * pi\<close> metres away
  (a low alert), at \<open>31864/31855\<close> it is \<open>10 * pi\<close> metres away (a medium alert).
  \<open>registeredWorld\<close> is the latter store after a token was registered.
\<close>

definition lockedData :: locked_location_data where
  "lockedData = lockedLocationData testEnv (lockAt 1 1)
     \<lparr>in_lat = 1, in_lon = 1, in_uncertainty = None, in_serviceType = []\<rparr>"

definition checkedWorld :: "real \<Rightarrow> world" where
  "checkedWorld x = scheduledLocationHistory (reportAt x) lockedWorld"

definition alertAt :: "real \<Rightarrow> movement_alert" where
  "alertAt x = newMovementAlert (reportAt x) lockedData \<lparr>lat = x, lon = 1\<rparr>
     (calculateDistance 1 1 x 1)"

text \<open>That alert as a listing reads it, with the id of its document.\<close>

definition storedAlert :: "real \<Rightarrow> movement_alert" where
  "storedAlert x = (alertAt x)\<lparr>alert_id := Some 0\<rparr>"

definition registeredWorld :: world where
  "registeredWorld =
     snd (registerFCMToken testEnv (registration ''tokenA'') (checkedWorld (31864 / 31855)))"

text \<open>The store of the medium alert after an Expo token was registered.\<close>

definition expoWorld :: world where
  "expoWorld =
     snd (registerFCMToken testEnv (registration ''ExponentPushToken[abc]'')
            (checkedWorld (31864 / 31855)))"

definition relockedWorld :: world where
  "relockedWorld = snd (postLockedLocation testEnv (lockAt 2 2) lockedWorld)"

definition listAll :: alerts_request where
  "listAll = \<lparr>a_deviceId = [], a_limit = 0, a_severity = []\<rparr>"


text \<open>\<open>n\<close> listings of the same request, one after the other.\<close>

fun listings :: "nat \<Rightarrow> env \<Rightarrow> alerts_request \<Rightarrow> world \<Rightarrow> world" where
  "listings 0 e req w = w"
| "listings (Suc n) e req w = listings n e req (snd (getMovementAlerts e req w))"

section \<open>Distance: lemmas\<close>


text \<open>Along a meridian the distance is the radius times the difference of latitude.\<close>

lemma atan2_sqrt_same:
  assumes "0 \<le> x" "x \<le> pi / 2"
  shows "atan2 (sqrt (sin x * sin x)) (sqrt (1 - sin x * sin x)) = x"
proof -
  have s: "0 \<le> sin x" using assms by (simp add: sin_ge_zero)
  have c: "0 \<le> cos x" using assms by (simp add: cos_ge_zero)
  have "1 - sin x * sin x = cos x * cos x"
    using sin_cos_squared_add [of x] by (simp add: power2_eq_square algebra_simps)
  then have e: "sqrt (1 - sin x * sin x) = cos x" using c by simp
  have e2: "sqrt (sin x * sin x) = sin x" using s by simp
  show ?thesis
  proof (cases "x = pi / 2")
    case True
    show ?thesis unfolding True by (simp add: atan2_def)
  next
    case False
    then have "x < pi / 2" using assms by simp
    then have "0 < cos x" using assms by (simp add: cos_gt_zero_pi)
    moreover have "arctan (sin x / cos x) = x"
      using arctan_tan [of x] assms \<open>x < pi / 2\<close> by (simp add: tan_def)
    ultimately show ?thesis unfolding e e2 by (simp add: atan2_def)
  qed
qed

lemma calculateDistance_same_lon:
  assumes "lat1 \<le> lat2" "lat2 - lat1 \<le> 180"
  shows "calculateDistance lat1 lo lat2 lo = 6371000 * ((lat2 - lat1) * pi / 180)"
proof -
  define x where "x = (lat2 - lat1) * pi / 180 / 2"
  have x0: "0 \<le> x" using assms by (simp add: x_def)
  have "(lat2 - lat1) * pi \<le> 180 * pi" using assms by simp
  then have x1: "x \<le> pi / 2" by (simp add: x_def)
  have "calculateDistance lat1 lo lat2 lo =
      6371000 * (2 * atan2 (sqrt (sin x * sin x)) (sqrt (1 - sin x * sin x)))"
    unfolding calculateDistance_def Let_def x_def by simp
  also have "\<dots> = 6371000 * (2 * x)" using atan2_sqrt_same [OF x0 x1] by simp
  also have "\<dots> = 6371000 * ((lat2 - lat1) * pi / 180)" by (simp add: x_def)
  finally show ?thesis .
qed

text \<open>
  The exact formula is symmetric in the two positions and gives 0 for a position and
  itself. This is a fact of the formula over the reals; the rounded arithmetic of the
  runtime is outside it.
\<close>

lemma sin_half_swap:
  fixes u v :: real
  shows "sin ((u - v) * pi / 180 / 2) = - sin ((v - u) * pi / 180 / 2)"
proof -
  have "(u - v) * pi / 180 / 2 = - ((v - u) * pi / 180 / 2)" by (simp add: field_simps)
  then show ?thesis by (simp only: sin_minus)
qed

lemma haversine_swap:
  fixes lat1 lon1 lat2 lon2 :: real
  shows "sin ((lat2 - lat1) * pi / 180 / 2) * sin ((lat2 - lat1) * pi / 180 / 2) +
       cos (lat1 * pi / 180) * cos (lat2 * pi / 180) *
       sin ((lon2 - lon1) * pi / 180 / 2) * sin ((lon2 - lon1) * pi / 180 / 2) =
     sin ((lat1 - lat2) * pi / 180 / 2) * sin ((lat1 - lat2) * pi / 180 / 2) +
       cos (lat2 * pi / 180) * cos (lat1 * pi / 180) *
       sin ((lon1 - lon2) * pi / 180 / 2) * sin ((lon1 - lon2) * pi / 180 / 2)"
  unfolding sin_half_swap [of lat2 lat1] sin_half_swap [of lon2 lon1]
  by (simp add: mult.commute)

lemma calculateDistance_sym:
  "calculateDistance lat1 lon1 lat2 lon2 = calculateDistance lat2 lon2 lat1 lon1"
  unfolding calculateDistance_def Let_def
  by (simp only: haversine_swap [of lat2 lat1 lon2 lon1])

lemma calculateDistance_same: "calculateDistance lat1 lon1 lat1 lon1 = 0"
  by (simp add: calculateDistance_def Let_def atan2_def)

text \<open>A bound on \<open>pi\<close>, for the distances of the examples.\<close>

lemma pi_ge_three: "3 \<le> pi"
proof -
  have "sin (pi / 6) \<le> pi / 6" by (rule sin_x_le_x) simp
  then show ?thesis by (simp add: sin_30)
qed

lemma scaled_cos_bounds:
  fixes t c :: real
  assumes "0 \<le> t" "- 1 \<le> c" "c \<le> 1"
  shows "- t \<le> t * c" "t * c \<le> t"
proof -
  have "t * (- 1) \<le> t * c" using assms by (intro mult_left_mono) simp_all
  then show "- t \<le> t * c" by simp
  have "t * c \<le> t * 1" using assms by (intro mult_left_mono) simp_all
  then show "t * c \<le> t" by simp
qed

text \<open>
  The haversine term lies between 0 and 1 for all angles, so both square roots of
  \<^verbatim>\<open>calculateDistance\<close> are taken of non-negative numbers.
\<close>

lemma haversine_bounds:
  fixes p1 p2 l :: real
  defines "a \<equiv> sin ((p2 - p1) / 2) * sin ((p2 - p1) / 2) + cos p1 * cos p2 * sin (l / 2) * sin (l / 2)"
  shows "0 \<le> a \<and> a \<le> 1"
proof -
  define s where "s = sin (l / 2) * sin (l / 2)"
  have s0: "0 \<le> s" by (simp add: s_def)
  have s1: "s \<le> 1"
  proof -
    have "s = (sin (l / 2))\<^sup>2" by (simp add: s_def power2_eq_square)
    then show ?thesis using abs_sin_le_one [of "l / 2"] by (simp add: abs_square_le_1)
  qed
  have d: "2 * ((p2 - p1) / 2) = p2 - p1" by simp
  have "cos (p2 - p1) = 1 - 2 * (sin ((p2 - p1) / 2))\<^sup>2"
    using cos_double_sin [of "(p2 - p1) / 2"] by (simp only: d)
  then have h: "sin ((p2 - p1) / 2) * sin ((p2 - p1) / 2) = (1 - cos (p2 - p1)) / 2"
    by (simp add: power2_eq_square)
  have pr: "cos p1 * cos p2 = (cos (p2 - p1) + cos (p2 + p1)) / 2"
    by (simp add: cos_diff cos_add)
  have "a = sin ((p2 - p1) / 2) * sin ((p2 - p1) / 2) + (cos p1 * cos p2) * s"
    unfolding a_def s_def by (simp add: mult.assoc)
  also have "\<dots> = (1 - cos (p2 - p1)) / 2 + ((cos (p2 - p1) + cos (p2 + p1)) / 2) * s"
    by (simp only: h pr)
  also have "\<dots> = (1 - (1 - s) * cos (p2 - p1) + s * cos (p2 + p1)) / 2"
    by (simp add: field_simps)
  finally have a: "a = (1 - (1 - s) * cos (p2 - p1) + s * cos (p2 + p1)) / 2" .
  have t0: "0 \<le> 1 - s" using s1 by simp
  have c1: "- (1 - s) \<le> (1 - s) * cos (p2 - p1)" "(1 - s) * cos (p2 - p1) \<le> 1 - s"
    using scaled_cos_bounds [OF t0, of "cos (p2 - p1)"] by simp_all
  have c2: "- s \<le> s * cos (p2 + p1)" "s * cos (p2 + p1) \<le> s"
    using scaled_cos_bounds [OF s0, of "cos (p2 + p1)"] by simp_all
  have "0 \<le> 1 - (1 - s) * cos (p2 - p1) + s * cos (p2 + p1)"
    using c1(2) c2(1) by linarith
  moreover have "1 - (1 - s) * cos (p2 - p1) + s * cos (p2 + p1) \<le> 2"
    using c1(1) c2(2) by linarith
  ultimately show ?thesis unfolding a by simp
qed




lemma calculateDistance_term_bounds:
  fixes lat1 lon1 lat2 lon2 :: real
  defines "dLat \<equiv> (lat2 - lat1) * pi / 180" and "dLon \<equiv> (lon2 - lon1) * pi / 180"
  shows "0 \<le> sin (dLat / 2) * sin (dLat / 2) +
              cos (lat1 * pi / 180) * cos (lat2 * pi / 180) * sin (dLon / 2) * sin (dLon / 2) \<and>
         sin (dLat / 2) * sin (dLat / 2) +
              cos (lat1 * pi / 180) * cos (lat2 * pi / 180) * sin (dLon / 2) * sin (dLon / 2) \<le> 1"
proof -
  have "dLat / 2 = (lat2 * pi / 180 - lat1 * pi / 180) / 2"
    by (simp add: dLat_def field_simps)
  then show ?thesis
    using haversine_bounds [of "lat2 * pi / 180" "lat1 * pi / 180" dLon] by simp
qed

section \<open>What each function does to the store and to the trace\<close>

lemma turnOn_eq:
  "turnOnMovementAlertLED e dev w = w\<lparr>effects := effects w @ activation dev\<rparr>"
  by (simp add: turnOnMovementAlertLED_def controlNRFCloudLED_def activation_def)

lemma sendFCM_eq:
  "sendFCMNotification e a w =
     (fcmSendOk e (length (effects w)), w\<lparr>effects := effects w @ [FcmSend a]\<rparr>)"
  by (simp add: sendFCMNotification_def)

lemma toUsers_fields:
  "effects (sendFCMNotificationsToUsers e a toks w) = effects w @ multicastCall a toks"
  "user_push_tokens (sendFCMNotificationsToUsers e a toks w) = user_push_tokens w"
  "movement_alerts (sendFCMNotificationsToUsers e a toks w) = movement_alerts w"
  "locked_locations (sendFCMNotificationsToUsers e a toks w) = locked_locations w"
  "notification_summary (sendFCMNotificationsToUsers e a toks w) = notification_summary w"
  "location_history (sendFCMNotificationsToUsers e a toks w) = location_history w"
  "location_lock_history (sendFCMNotificationsToUsers e a toks w) = location_lock_history w"
  by (simp_all add: sendFCMNotificationsToUsers_def multicastCall_def Let_def)

lemma activeTokenDocs_effects [simp]:
  "activeTokenDocs dev (w\<lparr>effects := es\<rparr>) = activeTokenDocs dev w"
  by (simp add: activeTokenDocs_def)

lemma activeTokenDocs_alerts [simp]:
  "activeTokenDocs dev (w\<lparr>movement_alerts := as\<rparr>) = activeTokenDocs dev w"
  by (simp add: activeTokenDocs_def)

lemma sendMAN_no_tokens:
  assumes "activeTokenDocs (deviceId a) w = []"
  shows "sendMovementAlertNotification e a w =
     (False, w\<lparr>effects := effects w @ activation (deviceId a) @ [FcmSend a]\<rparr>)"
  using assms
  by (simp add: sendMovementAlertNotification_def turnOn_eq sendFCM_eq Let_def)

lemma sendMAN_fst:
  "fst (sendMovementAlertNotification e a w) =
     (fcmTokensOf (activeTokenDocs (deviceId a) w) \<noteq> [])"
  by (simp add: sendMovementAlertNotification_def turnOn_eq sendFCM_eq Let_def
      fcmTokensOf_def split: prod.splits)

lemma sendMAN_fields:
  "effects (snd (sendMovementAlertNotification e a w)) =
     effects w @ activation (deviceId a) @
       multicastCall a (fcmTokensOf (activeTokenDocs (deviceId a) w)) @ [FcmSend a]"
  "user_push_tokens (snd (sendMovementAlertNotification e a w)) = user_push_tokens w"
  "movement_alerts (snd (sendMovementAlertNotification e a w)) = movement_alerts w"
  "locked_locations (snd (sendMovementAlertNotification e a w)) = locked_locations w"
  "location_history (snd (sendMovementAlertNotification e a w)) = location_history w"
  "location_lock_history (snd (sendMovementAlertNotification e a w)) = location_lock_history w"
  by (simp_all add: sendMovementAlertNotification_def turnOn_eq sendFCM_eq Let_def
      toUsers_fields multicastCall_def fcmTokensOf_def split: prod.splits)

lemma markNotified_fields:
  "effects (markNotified e i w) = effects w"
  "user_push_tokens (markNotified e i w) = user_push_tokens w"
  "locked_locations (markNotified e i w) = locked_locations w"
  "location_history (markNotified e i w) = location_history w"
  "location_lock_history (markNotified e i w) = location_lock_history w"
  "notification_summary (markNotified e i w) = notification_summary w"
  "map (severity \<circ> snd) (movement_alerts (markNotified e i w)) =
     map (severity \<circ> snd) (movement_alerts w)"
  "map (distance \<circ> snd) (movement_alerts (markNotified e i w)) =
     map (distance \<circ> snd) (movement_alerts w)"
  "map fst (movement_alerts (markNotified e i w)) = map fst (movement_alerts w)"
  by (simp_all add: markNotified_def split_def)

text \<open>The scheduled check when a lock exists and a usable position came back.\<close>

lemma tick_moved:
  assumes "locked_locations w (DEVICE_ID e) = Some l"
    and "nrfLocationHistory e (length (effects w)) = Some (p # ps)"
    and "lat p \<noteq> 0" "lon p \<noteq> 0"
    and "moved (calculateDistance (lat (location l)) (lon (location l)) (lat p) (lon p))"
  shows "effects (scheduledLocationHistory e w) =
      effects w @ [NrfGetHistory (DEVICE_ID e)] @ activation (DEVICE_ID e) @
        activation (DEVICE_ID e) @
        multicastCall (newMovementAlert e l p
            (calculateDistance (lat (location l)) (lon (location l)) (lat p) (lon p)))
          (fcmTokensOf (activeTokenDocs (DEVICE_ID e) w)) @
        [FcmSend (newMovementAlert e l p
            (calculateDistance (lat (location l)) (lon (location l)) (lat p) (lon p)))]"
    and "map (severity \<circ> snd) (movement_alerts (scheduledLocationHistory e w)) =
      severityOf (calculateDistance (lat (location l)) (lon (location l)) (lat p) (lon p)) #
        map (severity \<circ> snd) (movement_alerts w)"
    and "map (distance \<circ> snd) (movement_alerts (scheduledLocationHistory e w)) =
      calculateDistance (lat (location l)) (lon (location l)) (lat p) (lon p) #
        map (distance \<circ> snd) (movement_alerts w)"
proof -
  have dev: "deviceId (newMovementAlert e l p d) = DEVICE_ID e" for d
    by (simp add: newMovementAlert_def)
  show "effects (scheduledLocationHistory e w) =
      effects w @ [NrfGetHistory (DEVICE_ID e)] @ activation (DEVICE_ID e) @
        activation (DEVICE_ID e) @
        multicastCall (newMovementAlert e l p
            (calculateDistance (lat (location l)) (lon (location l)) (lat p) (lon p)))
          (fcmTokensOf (activeTokenDocs (DEVICE_ID e) w)) @
        [FcmSend (newMovementAlert e l p
            (calculateDistance (lat (location l)) (lon (location l)) (lat p) (lon p)))]"
    using assms
    by (simp add: scheduledLocationHistory_def Let_def split_beta turnOn_eq sendMAN_fields
        markNotified_fields dev activeTokenDocs_def split: option.splits)
  show "map (severity \<circ> snd) (movement_alerts (scheduledLocationHistory e w)) =
      severityOf (calculateDistance (lat (location l)) (lon (location l)) (lat p) (lon p)) #
        map (severity \<circ> snd) (movement_alerts w)"
    using assms
    by (simp add: scheduledLocationHistory_def Let_def split_beta turnOn_eq sendMAN_fields
        markNotified_fields newMovementAlert_def split: option.splits)
  show "map (distance \<circ> snd) (movement_alerts (scheduledLocationHistory e w)) =
      calculateDistance (lat (location l)) (lon (location l)) (lat p) (lon p) #
        map (distance \<circ> snd) (movement_alerts w)"
    using assms
    by (simp add: scheduledLocationHistory_def Let_def split_beta turnOn_eq sendMAN_fields
        markNotified_fields newMovementAlert_def split: option.splits)
qed

lemma tick_safe:
  assumes "locked_locations w (DEVICE_ID e) = Some l"
    and "nrfLocationHistory e (length (effects w)) = Some (p # ps)"
    and "lat p \<noteq> 0" "lon p \<noteq> 0"
    and "\<not> moved (calculateDistance (lat (location l)) (lon (location l)) (lat p) (lon p))"
  shows "effects (scheduledLocationHistory e w) = effects w @ [NrfGetHistory (DEVICE_ID e)]"
    and "movement_alerts (scheduledLocationHistory e w) = movement_alerts w"
  using assms by (simp_all add: scheduledLocationHistory_def Let_def)

section \<open>Severity tiers and distance\<close>

lemma lockedWorld_lock: "locked_locations lockedWorld ''dev1'' = Some lockedData"
  by (simp add: lockedWorld_def postLockedLocation_def lockAt_def Let_def lockedData_def)

lemma lockedWorld_fields:
  "effects lockedWorld = []"
  "movement_alerts lockedWorld = []"
  "user_push_tokens lockedWorld = []"
  "notification_summary lockedWorld = []"
  "failed_tokens lockedWorld = []"
  "location_history lockedWorld = []"
  by (simp_all add: lockedWorld_def postLockedLocation_def lockAt_def Let_def emptyWorld_def)

lemma lock_position:
  "lat (location lockedData) = 1"
  "lon (location lockedData) = 1"
  by (simp_all add: lockedLocationData_def lockedData_def)

lemma reportAt_fields:
  "DEVICE_ID (reportAt x) = ''dev1''"
  "nrfLocationHistory (reportAt x) n = Some [\<lparr>lat = x, lon = 1\<rparr>]"
  by (simp_all add: reportAt_def testEnv_def)

lemma test_distance:
  assumes "1 \<le> x" "x - 1 \<le> 180"
  shows "calculateDistance 1 1 x 1 = 6371000 * ((x - 1) * pi / 180)"
  using calculateDistance_same_lon [OF assms] .

text \<open>
  Claim C2. A scheduled check that finds a lock and a usable position computes the
  distance \<open>d\<close> and compares it with the threshold 10: for \<open>d \<le> 10\<close> the threshold is
  not exceeded and no alert is stored; for \<open>d\<close> in (10, 25] the alert stored has severity
  low, in (25, 50] medium, above 50 high. A severity is assigned only in the branch where
  the threshold is exceeded.
\<close>

theorem severity_tiers:
  assumes "locked_locations w (DEVICE_ID e) = Some l"
    and "nrfLocationHistory e (length (effects w)) = Some (p # ps)"
    and "lat p \<noteq> 0" and "lon p \<noteq> 0"
  shows "let d = calculateDistance (lat (location l)) (lon (location l)) (lat p) (lon p);
             w' = scheduledLocationHistory e w
         in (d \<le> 10 \<longrightarrow> \<not> moved d \<and> movement_alerts w' = movement_alerts w) \<and>
            (10 < d \<and> d \<le> 25 \<longrightarrow> moved d \<and> severityOf d = low \<and>
               map (severity \<circ> snd) (movement_alerts w') =
                 low # map (severity \<circ> snd) (movement_alerts w)) \<and>
            (25 < d \<and> d \<le> 50 \<longrightarrow> moved d \<and> severityOf d = medium \<and>
               map (severity \<circ> snd) (movement_alerts w') =
                 medium # map (severity \<circ> snd) (movement_alerts w)) \<and>
            (50 < d \<longrightarrow> moved d \<and> severityOf d = high \<and>
               map (severity \<circ> snd) (movement_alerts w') =
                 high # map (severity \<circ> snd) (movement_alerts w))"
proof -
  define d where "d = calculateDistance (lat (location l)) (lon (location l)) (lat p) (lon p)"
  have safe: "movement_alerts (scheduledLocationHistory e w) = movement_alerts w"
    if "d \<le> 10"
    using that tick_safe(2) [OF assms] by (simp add: d_def moved_def)
  have alert: "map (severity \<circ> snd) (movement_alerts (scheduledLocationHistory e w)) =
      severityOf d # map (severity \<circ> snd) (movement_alerts w)" if "10 < d"
    using that tick_moved(2) [OF assms] by (simp add: d_def moved_def)
  show ?thesis
    unfolding Let_def d_def [symmetric]
    using safe alert by (auto simp: moved_def severityOf_def)
qed

theorem severity_tiers_witness:
  "movement_alerts (scheduledLocationHistory (reportAt 1) lockedWorld) = [] \<and>
   map (severity \<circ> snd) (movement_alerts
     (scheduledLocationHistory (reportAt (159293 / 159275)) lockedWorld)) = [low] \<and>
   map (severity \<circ> snd) (movement_alerts
     (scheduledLocationHistory (reportAt (31864 / 31855)) lockedWorld)) = [medium] \<and>
   map (severity \<circ> snd) (movement_alerts
     (scheduledLocationHistory (reportAt 2) lockedWorld)) = [high]"
proof -
  have lock: "locked_locations lockedWorld (DEVICE_ID (reportAt x)) = Some lockedData" for x
    by (simp add: reportAt_fields lockedWorld_lock)
  have fetch: "nrfLocationHistory (reportAt x) (length (effects lockedWorld)) =
      Some (\<lparr>lat = x, lon = 1\<rparr> # [])" for x
    by (simp add: reportAt_fields)
  have T: "x \<noteq> 0 \<Longrightarrow>
      (let d = calculateDistance 1 1 x 1;
           w' = scheduledLocationHistory (reportAt x) lockedWorld
       in (d \<le> 10 \<longrightarrow> \<not> moved d \<and> movement_alerts w' = movement_alerts lockedWorld) \<and>
          (10 < d \<and> d \<le> 25 \<longrightarrow> moved d \<and> severityOf d = low \<and>
             map (severity \<circ> snd) (movement_alerts w') =
               low # map (severity \<circ> snd) (movement_alerts lockedWorld)) \<and>
          (25 < d \<and> d \<le> 50 \<longrightarrow> moved d \<and> severityOf d = medium \<and>
             map (severity \<circ> snd) (movement_alerts w') =
               medium # map (severity \<circ> snd) (movement_alerts lockedWorld)) \<and>
          (50 < d \<longrightarrow> moved d \<and> severityOf d = high \<and>
             map (severity \<circ> snd) (movement_alerts w') =
               high # map (severity \<circ> snd) (movement_alerts lockedWorld)))" for x
    using severity_tiers [OF lock [of x] fetch [of x]] by (simp add: lock_position)
  have b: "3 \<le> pi" "pi < 4" using pi_ge_three pi_less_4 by simp_all
  have d0: "calculateDistance 1 1 1 1 \<le> 10" by (simp add: calculateDistance_same)
  have d1: "10 < calculateDistance 1 1 (159293 / 159275) 1"
    "calculateDistance 1 1 (159293 / 159275) 1 \<le> 25"
    using test_distance [of "159293 / 159275"] b by simp_all
  have d2: "25 < calculateDistance 1 1 (31864 / 31855) 1"
    "calculateDistance 1 1 (31864 / 31855) 1 \<le> 50"
    using test_distance [of "31864 / 31855"] b by simp_all
  have d3: "50 < calculateDistance 1 1 2 1"
    using test_distance [of 2] b by simp
  have "movement_alerts (scheduledLocationHistory (reportAt 1) lockedWorld) = []"
    using T [of 1] d0 by (simp add: Let_def lockedWorld_fields)
  moreover have "map (severity \<circ> snd) (movement_alerts
     (scheduledLocationHistory (reportAt (159293 / 159275)) lockedWorld)) = [low]"
    using T [of "159293 / 159275"] d1 by (simp add: Let_def lockedWorld_fields)
  moreover have "map (severity \<circ> snd) (movement_alerts
     (scheduledLocationHistory (reportAt (31864 / 31855)) lockedWorld)) = [medium]"
    using T [of "31864 / 31855"] d2 by (simp add: Let_def lockedWorld_fields)
  moreover have "map (severity \<circ> snd) (movement_alerts
     (scheduledLocationHistory (reportAt 2) lockedWorld)) = [high]"
    using T [of 2] d3 by (simp add: Let_def lockedWorld_fields)
  ultimately show ?thesis by simp
qed

section \<open>The loop of a listing\<close>

lemma topicSends_append: "topicSends (xs @ ys) = topicSends xs @ topicSends ys"
  by (induction xs rule: topicSends.induct) simp_all

lemma topicSends_parts [simp]:
  "topicSends (activation dev) = []"
  "topicSends (multicastCall a toks) = []"
  by (simp_all add: activation_def multicastCall_def)

lemma topicSends_dispatchTrace [simp]: "topicSends (dispatchTrace w a) = [a]"
  by (simp add: dispatchTrace_def topicSends_append)

lemma topicSends_listingTrace [simp]: "topicSends (listingTrace dev w picked) = picked"
  by (induction picked) (simp_all add: listingTrace_def topicSends_append)

lemma indicator_parts [simp]:
  "filter isIndicator (activation dev) = activation dev"
  "filter isIndicator (multicastCall a toks) = []"
  by (simp_all add: activation_def multicastCall_def)

lemma indicator_dispatchTrace [simp]:
  "filter isIndicator (dispatchTrace w a) = activation (deviceId a)"
  by (simp add: dispatchTrace_def)

lemma newEffects_append:
  "effects w' = effects w @ es \<Longrightarrow> newEffects w w' = es"
  by (simp add: newEffects_def)

lemma activeTokenDocs_tokens:
  "user_push_tokens w' = user_push_tokens w \<Longrightarrow> activeTokenDocs dev w' = activeTokenDocs dev w"
  by (simp add: activeTokenDocs_def)

lemma dispatchTrace_tokens:
  "user_push_tokens w' = user_push_tokens w \<Longrightarrow> dispatchTrace w' a = dispatchTrace w a"
  by (simp add: dispatchTrace_def activeTokenDocs_def)

lemma listingTrace_tokens:
  assumes "user_push_tokens w' = user_push_tokens w"
  shows "listingTrace dev w' picked = listingTrace dev w picked"
  unfolding listingTrace_def dispatchTrace_tokens [OF assms] ..

lemma notifiedIds_tokens:
  assumes "user_push_tokens w' = user_push_tokens w"
  shows "notifiedIds w' picked = notifiedIds w picked"
  unfolding notifiedIds_def activeTokenDocs_tokens [OF assms] ..

lemma sendMAN_effects:
  "effects (snd (sendMovementAlertNotification e a w)) = effects w @ dispatchTrace w a"
  by (simp add: sendMAN_fields dispatchTrace_def)

lemma notifyAlerts_Cons:
  "notifyAlerts e dev (a # rest) w = notifyAlerts e dev rest (loopRound e dev a w)"
  by simp

lemma markNotified_alerts_cong:
  "movement_alerts w' = movement_alerts w \<Longrightarrow>
   movement_alerts (markNotified e i w') = movement_alerts (markNotified e i w)"
  by (simp add: markNotified_def)

lemma loopRound_eq:
  "loopRound e dev a w =
     (if fcmTokensOf (activeTokenDocs (deviceId a) w) \<noteq> []
      then (case alert_id a of
              Some i \<Rightarrow> markNotified e i
                (snd (sendMovementAlertNotification e a (turnOnMovementAlertLED e dev w)))
            | None \<Rightarrow> snd (sendMovementAlertNotification e a (turnOnMovementAlertLED e dev w)))
      else snd (sendMovementAlertNotification e a (turnOnMovementAlertLED e dev w)))"
proof -
  have "fst (sendMovementAlertNotification e a (turnOnMovementAlertLED e dev w)) =
      (fcmTokensOf (activeTokenDocs (deviceId a) w) \<noteq> [])"
    by (simp add: sendMAN_fst turnOn_eq)
  then show ?thesis
    by (simp add: loopRound_def Let_def split_beta)
qed

lemma after_dispatch:
  "effects (snd (sendMovementAlertNotification e a (turnOnMovementAlertLED e dev w))) =
     effects w @ activation dev @ dispatchTrace w a"
  "user_push_tokens (snd (sendMovementAlertNotification e a (turnOnMovementAlertLED e dev w))) =
     user_push_tokens w"
  "movement_alerts (snd (sendMovementAlertNotification e a (turnOnMovementAlertLED e dev w))) =
     movement_alerts w"
  "locked_locations (snd (sendMovementAlertNotification e a (turnOnMovementAlertLED e dev w))) =
     locked_locations w"
  "location_history (snd (sendMovementAlertNotification e a (turnOnMovementAlertLED e dev w))) =
     location_history w"
  "location_lock_history (snd (sendMovementAlertNotification e a (turnOnMovementAlertLED e dev w))) =
     location_lock_history w"
  by (simp_all add: sendMAN_fields turnOn_eq dispatchTrace_def)

lemma loopRound_fields:
  "effects (loopRound e dev a w) = effects w @ activation dev @ dispatchTrace w a"
  "user_push_tokens (loopRound e dev a w) = user_push_tokens w"
  "locked_locations (loopRound e dev a w) = locked_locations w"
  "location_history (loopRound e dev a w) = location_history w"
  "location_lock_history (loopRound e dev a w) = location_lock_history w"
  unfolding loopRound_eq
  by (cases "alert_id a"; simp add: after_dispatch markNotified_fields)+

lemma loopRound_alerts:
  "movement_alerts (loopRound e dev a w) =
     movement_alerts (fold (markNotified e) (notifiedIds w [a]) w)"
  unfolding loopRound_eq
  by (cases "alert_id a")
    (simp_all add: notifiedIds_def after_dispatch
      markNotified_alerts_cong [OF after_dispatch(3)])

lemma fold_markNotified_cong:
  "movement_alerts w' = movement_alerts w \<Longrightarrow>
   movement_alerts (fold (markNotified e) ids w') = movement_alerts (fold (markNotified e) ids w)"
proof (induction ids arbitrary: w w')
  case Nil
  then show ?case by simp
next
  case (Cons i ids)
  show ?case
    using Cons.IH [OF markNotified_alerts_cong [OF Cons.prems]] by simp
qed

lemma notifyAlerts_tokens:
  "user_push_tokens (notifyAlerts e dev picked w) = user_push_tokens w"
proof (induction picked arbitrary: w)
  case Nil
  show ?case by simp
next
  case (Cons a rest)
  show ?case unfolding notifyAlerts_Cons by (simp add: Cons.IH loopRound_fields)
qed

lemma notifyAlerts_effects:
  "effects (notifyAlerts e dev picked w) = effects w @ listingTrace dev w picked"
proof (induction picked arbitrary: w)
  case Nil
  show ?case by (simp add: listingTrace_def)
next
  case (Cons a rest)
  have t: "listingTrace dev (loopRound e dev a w) rest = listingTrace dev w rest"
    by (rule listingTrace_tokens) (simp add: loopRound_fields)
  show ?case
    unfolding notifyAlerts_Cons Cons.IH t
    by (simp add: loopRound_fields listingTrace_def)
qed

lemma notifyAlerts_alerts:
  "movement_alerts (notifyAlerts e dev picked w) =
     movement_alerts (fold (markNotified e) (notifiedIds w picked) w)"
proof (induction picked arbitrary: w)
  case Nil
  show ?case by (simp add: notifiedIds_def)
next
  case (Cons a rest)
  have n: "notifiedIds (loopRound e dev a w) rest = notifiedIds w rest"
    by (rule notifiedIds_tokens) (simp add: loopRound_fields)
  have s: "notifiedIds w (a # rest) = notifiedIds w [a] @ notifiedIds w rest"
    by (simp add: notifiedIds_def)
  have "movement_alerts (notifyAlerts e dev (a # rest) w) =
      movement_alerts (fold (markNotified e) (notifiedIds w rest) (loopRound e dev a w))"
    unfolding notifyAlerts_Cons Cons.IH n ..
  also have "\<dots> = movement_alerts (fold (markNotified e) (notifiedIds w rest)
      (fold (markNotified e) (notifiedIds w [a]) w))"
    by (rule fold_markNotified_cong) (rule loopRound_alerts)
  finally show ?case by (simp add: s)
qed

lemma notifyAlerts_frame:
  "locked_locations (notifyAlerts e dev picked w) = locked_locations w"
  "location_history (notifyAlerts e dev picked w) = location_history w"
  "location_lock_history (notifyAlerts e dev picked w) = location_lock_history w"
proof (induction picked arbitrary: w)
  case Nil
  { case 1 show ?case by simp }
  { case 2 show ?case by simp }
  { case 3 show ?case by simp }
next
  case (Cons a rest)
  { case 1 show ?case unfolding notifyAlerts_Cons by (simp add: Cons.IH loopRound_fields) }
  { case 2 show ?case unfolding notifyAlerts_Cons by (simp add: Cons.IH loopRound_fields) }
  { case 3 show ?case unfolding notifyAlerts_Cons by (simp add: Cons.IH loopRound_fields) }
qed

section \<open>The dispatcher, the lock operation and the scheduled check\<close>

lemma notification_parts [simp]:
  "filter isNotification (activation dev) = []"
  "filter isNotification (multicastCall a toks) = multicastCall a toks"
  by (simp_all add: activation_def multicastCall_def)

lemma tick_moved_unnotified:
  assumes "locked_locations w (DEVICE_ID e) = Some l"
    and "nrfLocationHistory e (length (effects w)) = Some (p # ps)"
    and "lat p \<noteq> 0" "lon p \<noteq> 0"
    and "moved (calculateDistance (lat (location l)) (lon (location l)) (lat p) (lon p))"
    and "activeTokenDocs (DEVICE_ID e) w = []"
  shows "movement_alerts (scheduledLocationHistory e w) =
      (length (movement_alerts w), newMovementAlert e l p
         (calculateDistance (lat (location l)) (lon (location l)) (lat p) (lon p))) #
        movement_alerts w"
    and "user_push_tokens (scheduledLocationHistory e w) = user_push_tokens w"
    and "notification_summary (scheduledLocationHistory e w) = notification_summary w"
proof -
  have dev: "deviceId (newMovementAlert e l p d) = DEVICE_ID e" for d
    by (simp add: newMovementAlert_def)
  have none: "activeTokenDocs (DEVICE_ID e) w' = []"
    if "user_push_tokens w' = user_push_tokens w" for w'
    using assms(6) activeTokenDocs_tokens [OF that] by simp
  have send: "sendMovementAlertNotification e (newMovementAlert e l p d) w' =
      (False, w'\<lparr>effects := effects w' @ activation (DEVICE_ID e) @
         [FcmSend (newMovementAlert e l p d)]\<rparr>)"
    if "user_push_tokens w' = user_push_tokens w" for w' d
    using sendMAN_no_tokens [of "newMovementAlert e l p d" w' e] none [OF that]
    by (simp add: dev)
  show "movement_alerts (scheduledLocationHistory e w) =
      (length (movement_alerts w), newMovementAlert e l p
         (calculateDistance (lat (location l)) (lon (location l)) (lat p) (lon p))) #
        movement_alerts w"
    using assms(1-5)
    by (simp add: scheduledLocationHistory_def Let_def turnOn_eq send)
  show "user_push_tokens (scheduledLocationHistory e w) = user_push_tokens w"
    using assms(1-5)
    by (simp add: scheduledLocationHistory_def Let_def turnOn_eq send)
  show "notification_summary (scheduledLocationHistory e w) = notification_summary w"
    using assms(1-5)
    by (simp add: scheduledLocationHistory_def Let_def turnOn_eq send)
qed

text \<open>The example stores after a scheduled check that raised an alert.\<close>

lemma checkedWorld_facts:
  assumes "x \<noteq> 0" and "10 < calculateDistance 1 1 x 1"
  shows "movement_alerts (checkedWorld x) = [(0, alertAt x)]"
    and "user_push_tokens (checkedWorld x) = []"
    and "notification_summary (checkedWorld x) = []"
    and "effects (checkedWorld x) =
      [NrfGetHistory ''dev1''] @ activation ''dev1'' @ activation ''dev1'' @ [FcmSend (alertAt x)]"
proof -
  have lock: "locked_locations lockedWorld (DEVICE_ID (reportAt x)) = Some lockedData"
    by (simp add: reportAt_fields lockedWorld_lock)
  have fetch: "nrfLocationHistory (reportAt x) (length (effects lockedWorld)) =
      Some (\<lparr>lat = x, lon = 1\<rparr> # [])"
    by (simp add: reportAt_fields)
  have nz: "lat \<lparr>lat = x, lon = 1\<rparr> \<noteq> 0" "lon \<lparr>lat = x, lon = 1::real\<rparr> \<noteq> 0"
    using assms(1) by simp_all
  have mv: "moved (calculateDistance (lat (location lockedData)) (lon (location lockedData))
      (lat \<lparr>lat = x, lon = 1\<rparr>) (lon \<lparr>lat = x, lon = 1::real\<rparr>))"
    using assms(2) by (simp add: lock_position moved_def)
  have none: "activeTokenDocs (DEVICE_ID (reportAt x)) lockedWorld = []"
    by (simp add: activeTokenDocs_def lockedWorld_fields)
  show "movement_alerts (checkedWorld x) = [(0, alertAt x)]"
    using tick_moved_unnotified(1) [OF lock fetch nz mv none]
    by (simp add: checkedWorld_def alertAt_def lock_position lockedWorld_fields)
  show "user_push_tokens (checkedWorld x) = []"
    using tick_moved_unnotified(2) [OF lock fetch nz mv none]
    by (simp add: checkedWorld_def lockedWorld_fields)
  show "notification_summary (checkedWorld x) = []"
    using tick_moved_unnotified(3) [OF lock fetch nz mv none]
    by (simp add: checkedWorld_def lockedWorld_fields)
  show "effects (checkedWorld x) =
      [NrfGetHistory ''dev1''] @ activation ''dev1'' @ activation ''dev1'' @ [FcmSend (alertAt x)]"
    using tick_moved(1) [OF lock fetch nz mv] none
    by (simp add: checkedWorld_def alertAt_def lock_position lockedWorld_fields
        reportAt_fields fcmTokensOf_def multicastCall_def)
qed

lemma test_distances:
  "10 < calculateDistance 1 1 (159293 / 159275) 1"
  "calculateDistance 1 1 (159293 / 159275) 1 \<le> 25"
  "25 < calculateDistance 1 1 (31864 / 31855) 1"
  "calculateDistance 1 1 (31864 / 31855) 1 \<le> 50"
  "10 < calculateDistance 1 1 (31864 / 31855) 1"
proof -
  have b: "3 \<le> pi" "pi < 4" using pi_ge_three pi_less_4 by simp_all
  show "10 < calculateDistance 1 1 (159293 / 159275) 1"
    "calculateDistance 1 1 (159293 / 159275) 1 \<le> 25"
    using test_distance [of "159293 / 159275"] b by simp_all
  show "25 < calculateDistance 1 1 (31864 / 31855) 1"
    "calculateDistance 1 1 (31864 / 31855) 1 \<le> 50"
    "10 < calculateDistance 1 1 (31864 / 31855) 1"
    using test_distance [of "31864 / 31855"] b by simp_all
qed

lemma alertAt_fields:
  "deviceId (alertAt x) = ''dev1''"
  "alert_id (alertAt x) = None"
  "notificationSent (alertAt x) = False"
  "distance (alertAt x) = calculateDistance 1 1 x 1"
  "severity (alertAt x) = severityOf (calculateDistance 1 1 x 1)"
  by (simp_all add: alertAt_def newMovementAlert_def reportAt_fields)

text \<open>
  Claim C3, as the code has it. When the device of the alert has no active token, the
  dispatcher makes the indicator calls and then exactly one notification call, the
  topic message; it returns from that branch at once, so the store is left as it was:
  in particular no summary is added to \<^verbatim>\<open>notification_summary\<close>.
\<close>

theorem no_tokens_topic_only:
  assumes "activeTokenDocs (deviceId a) w = []"
  shows "snd (sendMovementAlertNotification e a w) =
           w\<lparr>effects := effects w @ activation (deviceId a) @ [FcmSend a]\<rparr> \<and>
         filter isNotification (newEffects w (snd (sendMovementAlertNotification e a w))) =
           [FcmSend a] \<and>
         notification_summary (snd (sendMovementAlertNotification e a w)) =
           notification_summary w"
  using sendMAN_no_tokens [OF assms, of e]
  by (simp add: newEffects_def)

theorem no_tokens_topic_only_witness:
  "activeTokenDocs (deviceId (alertAt 2)) lockedWorld = [] \<and>
   filter isNotification
     (newEffects lockedWorld (snd (sendMovementAlertNotification testEnv (alertAt 2) lockedWorld))) =
     [FcmSend (alertAt 2)] \<and>
   notification_summary (snd (sendMovementAlertNotification testEnv (alertAt 2) lockedWorld)) = []"
proof -
  have none: "activeTokenDocs (deviceId (alertAt 2)) lockedWorld = []"
    by (simp add: activeTokenDocs_def lockedWorld_fields)
  have empty: "notification_summary lockedWorld = []"
    by (simp add: lockedWorld_fields)
  show ?thesis
    using none no_tokens_topic_only [OF none, of testEnv] unfolding empty by blast
qed

text \<open>
  The claim as it is written fails: with no token registered the dispatch stores no
  summary at all.
\<close>

theorem no_tokens_summary_counterexample:
  "activeTokenDocs ''dev1'' lockedWorld = [] \<and>
   deviceId (alertAt 2) = ''dev1'' \<and>
   notification_summary (snd (sendMovementAlertNotification testEnv (alertAt 2) lockedWorld)) = []"
proof -
  have none: "activeTokenDocs (deviceId (alertAt 2)) lockedWorld = []"
    by (simp add: activeTokenDocs_def lockedWorld_fields)
  show ?thesis
    using none sendMAN_no_tokens [OF none, of testEnv]
    by (simp add: lockedWorld_fields alertAt_fields)
qed

text \<open>
  Claim C4, as the code has it. The scheduled check fetches the position and stores the
  answer in \<^verbatim>\<open>location_history\<close> before it looks for a lock. For a device without a
  lock record that entry is its only write: nothing else in the store changes, and the
  fetch is its only outside call. When the fetch fails, nothing is written.
\<close>

theorem tick_without_lock:
  assumes "locked_locations w (DEVICE_ID e) = None"
  shows "scheduledLocationHistory e w =
     (case nrfLocationHistory e (length (effects w)) of
        None \<Rightarrow> w\<lparr>effects := effects w @ [NrfGetHistory (DEVICE_ID e)]\<rparr>
      | Some items \<Rightarrow>
          w\<lparr>effects := effects w @ [NrfGetHistory (DEVICE_ID e)],
            location_history := location_history w @
              [\<lparr>lh_deviceId = DEVICE_ID e, lh_latest = True, lh_data = items,
                lh_timestamp = serverTimestamp e, lh_source = ''scheduled''\<rparr>]\<rparr>)"
  using assms by (simp add: scheduledLocationHistory_def Let_def split: option.splits)

theorem tick_without_lock_witness:
  "locked_locations emptyWorld (DEVICE_ID testEnv) = None \<and>
   scheduledLocationHistory testEnv emptyWorld =
     emptyWorld\<lparr>effects := [NrfGetHistory ''dev1''],
       location_history :=
         [\<lparr>lh_deviceId = ''dev1'', lh_latest = True,
           lh_data = [\<lparr>lat = 31864 / 31855, lon = 1\<rparr>],
           lh_timestamp = 7, lh_source = ''scheduled''\<rparr>]\<rparr>"
proof -
  have none: "locked_locations emptyWorld (DEVICE_ID testEnv) = None"
    by (simp add: emptyWorld_def)
  show ?thesis
    using none tick_without_lock [OF none]
    by (simp add: emptyWorld_def testEnv_def)
qed

text \<open>The claim as it is written fails: the check without a lock writes to the store.\<close>

theorem tick_without_lock_counterexample:
  "locked_locations emptyWorld (DEVICE_ID testEnv) = None \<and>
   location_history emptyWorld = [] \<and>
   length (location_history (scheduledLocationHistory testEnv emptyWorld)) = 1"
  by (simp add: scheduledLocationHistory_def Let_def emptyWorld_def testEnv_def)

text \<open>
  Claim C5, as the code has it. A valid lock request for a device that already has a lock
  record succeeds and replaces the record by the new one; the entry it appends to the lock
  history holds the new record, tagged \<^verbatim>\<open>lock\<close>, and the prior record is not archived.
  The new record has none of the fields the scheduled check adds (distance, last alert,
  alert count, last check).
\<close>

theorem lock_overwrites:
  assumes "q_location req = Some loc" and "q_deviceId req \<noteq> []"
    and "in_lat loc \<noteq> 0" and "in_lon loc \<noteq> 0"
    and "locked_locations w (q_deviceId req) = Some prior"
  shows "postLockedLocation e req w =
     ((200, True),
      w\<lparr>locked_locations := (locked_locations w)(q_deviceId req \<mapsto> lockedLocationData e req loc),
        location_lock_history := location_lock_history w @
          [\<lparr>h_data = lockedLocationData e req loc, h_action = ''lock''\<rparr>]\<rparr>) \<and>
     lat (location (lockedLocationData e req loc)) = in_lat loc \<and>
     lon (location (lockedLocationData e req loc)) = in_lon loc \<and>
     currentDistance (lockedLocationData e req loc) = None \<and>
     lastMovementAlert (lockedLocationData e req loc) = None \<and>
     lastAlertAt (lockedLocationData e req loc) = None \<and>
     alertCount (lockedLocationData e req loc) = None \<and>
     lastCheckedAt (lockedLocationData e req loc) = None"
  using assms(1-4)
  by (simp add: postLockedLocation_def Let_def lockedLocationData_def)

lemma lockAt_fields:
  "q_location (lockAt la lo) =
     Some \<lparr>in_lat = la, in_lon = lo, in_uncertainty = None, in_serviceType = []\<rparr>"
  "q_deviceId (lockAt la lo) = ''dev1''"
  by (simp_all add: lockAt_def)

theorem lock_overwrites_witness:
  "locked_locations lockedWorld ''dev1'' = Some lockedData \<and>
   fst (postLockedLocation testEnv (lockAt 2 2) lockedWorld) = (200, True) \<and>
   map_option (lat \<circ> location) (locked_locations relockedWorld ''dev1'') = Some 2 \<and>
   map_option currentDistance (locked_locations relockedWorld ''dev1'') = Some None"
proof -
  have loc: "q_location (lockAt 2 2) =
      Some \<lparr>in_lat = 2, in_lon = 2, in_uncertainty = None, in_serviceType = []\<rparr>"
    by (simp add: lockAt_fields)
  have dev: "q_deviceId (lockAt 2 2) \<noteq> []" by (simp add: lockAt_fields)
  have nz: "in_lat \<lparr>in_lat = 2::real, in_lon = 2::real, in_uncertainty = None,
                in_serviceType = []\<rparr> \<noteq> 0"
    "in_lon \<lparr>in_lat = 2::real, in_lon = 2::real, in_uncertainty = None,
                in_serviceType = []\<rparr> \<noteq> 0"
    by simp_all
  have prior: "locked_locations lockedWorld (q_deviceId (lockAt 2 2)) = Some lockedData"
    by (simp add: lockAt_fields lockedWorld_lock)
  note T = lock_overwrites [OF loc dev nz prior, of testEnv]
  from T have r: "postLockedLocation testEnv (lockAt 2 2) lockedWorld =
     ((200, True),
      lockedWorld\<lparr>locked_locations := (locked_locations lockedWorld)(q_deviceId (lockAt 2 2) \<mapsto>
           lockedLocationData testEnv (lockAt 2 2)
             \<lparr>in_lat = 2, in_lon = 2, in_uncertainty = None, in_serviceType = []\<rparr>),
        location_lock_history := location_lock_history lockedWorld @
          [\<lparr>h_data = lockedLocationData testEnv (lockAt 2 2)
             \<lparr>in_lat = 2, in_lon = 2, in_uncertainty = None, in_serviceType = []\<rparr>,
            h_action = ''lock''\<rparr>]\<rparr>)"
    by (rule conjunct1)
  from T have f: "lat (location (lockedLocationData testEnv (lockAt 2 2)
             \<lparr>in_lat = 2, in_lon = 2, in_uncertainty = None, in_serviceType = []\<rparr>)) = 2"
    "currentDistance (lockedLocationData testEnv (lockAt 2 2)
             \<lparr>in_lat = 2, in_lon = 2, in_uncertainty = None, in_serviceType = []\<rparr>) = None"
    by simp_all
  show ?thesis
    unfolding relockedWorld_def r
    by (simp add: lockedWorld_lock lockAt_fields f)
qed

text \<open>
  The claim as it is written fails: the prior record was locked at latitude 1, and the
  entry the second lock adds to the history is the new record, at latitude 2.
\<close>

theorem lock_history_counterexample:
  "map_option (lat \<circ> location) (locked_locations lockedWorld ''dev1'') = Some 1 \<and>
   map (lat \<circ> location \<circ> h_data)
     (drop (length (location_lock_history lockedWorld)) (location_lock_history relockedWorld)) = [2]"
  by (simp add: relockedWorld_def lockedWorld_def postLockedLocation_def lockAt_def Let_def
      lockedLocationData_def emptyWorld_def)

lemma notification_dispatchTrace:
  "filter isNotification (dispatchTrace w a) =
     multicastCall a (fcmTokensOf (activeTokenDocs (deviceId a) w)) @ [FcmSend a]"
  by (simp add: dispatchTrace_def)

text \<open>The example store with one registered token.\<close>

lemma registeredWorld_facts:
  "user_push_tokens registeredWorld =
     [(''dev1_tokenA'',
       \<lparr>t_deviceId = ''dev1'', pushToken = ''tokenA'', tokenType = fcm,
        userId = ''anonymous'', platform = ''unknown'', registeredAt = 7, lastUsed = 7,
        active = True\<rparr>)]"
  "movement_alerts registeredWorld = [(0, alertAt (31864 / 31855))]"
  "fcmTokensOf (activeTokenDocs ''dev1'' registeredWorld) = [''tokenA'']"
proof -
  have c: "user_push_tokens (checkedWorld (31864 / 31855)) = []"
    "movement_alerts (checkedWorld (31864 / 31855)) = [(0, alertAt (31864 / 31855))]"
    using checkedWorld_facts [of "31864 / 31855"] test_distances by simp_all
  show t: "user_push_tokens registeredWorld =
     [(''dev1_tokenA'',
       \<lparr>t_deviceId = ''dev1'', pushToken = ''tokenA'', tokenType = fcm,
        userId = ''anonymous'', platform = ''unknown'', registeredAt = 7, lastUsed = 7,
        active = True\<rparr>)]"
    by (simp add: registeredWorld_def registerFCMToken_def registration_def Let_def c
        startsWith_def docSet_def tokenId_def orElse_def testEnv_def tokenDocument_def
        isExpoToken_def)
  show "movement_alerts registeredWorld = [(0, alertAt (31864 / 31855))]"
    by (simp add: registeredWorld_def registerFCMToken_def registration_def Let_def c)
  show "fcmTokensOf (activeTokenDocs ''dev1'' registeredWorld) = [''tokenA'']"
    by (simp add: activeTokenDocs_def fcmTokensOf_def t)
qed

text \<open>
  Claim C6, as the code has it. The result of a dispatch looks at the direct channel
  only: it is false whenever the device has no active FCM token, whatever the topic
  message reports, and it is true only when a multicast to the FCM tokens of the device
  was made. Each dispatch makes at most one multicast and exactly one topic send: nothing
  is sent a second time.
\<close>

theorem overall_success_direct_only:
  "(fcmTokensOf (activeTokenDocs (deviceId a) w) = [] \<longrightarrow>
      \<not> fst (sendMovementAlertNotification e a w)) \<and>
   filter isNotification (newEffects w (snd (sendMovementAlertNotification e a w))) =
     (if fst (sendMovementAlertNotification e a w)
      then [FcmMulticast a (fcmTokensOf (activeTokenDocs (deviceId a) w))] else []) @
     [FcmSend a]"
proof -
  have "newEffects w (snd (sendMovementAlertNotification e a w)) = dispatchTrace w a"
    by (rule newEffects_append) (rule sendMAN_effects)
  then show ?thesis
    by (simp add: sendMAN_fst notification_dispatchTrace multicastCall_def)
qed

theorem overall_success_direct_only_witness:
  "fcmTokensOf (activeTokenDocs (deviceId (alertAt 2)) lockedWorld) = [] \<and>
   \<not> fst (sendMovementAlertNotification testEnv (alertAt 2) lockedWorld) \<and>
   filter isNotification
     (newEffects lockedWorld (snd (sendMovementAlertNotification testEnv (alertAt 2) lockedWorld))) =
     [FcmSend (alertAt 2)] \<and>
   fst (sendMovementAlertNotification testEnv (alertAt 2) registeredWorld) \<and>
   filter isNotification
     (newEffects registeredWorld
        (snd (sendMovementAlertNotification testEnv (alertAt 2) registeredWorld))) =
     [FcmMulticast (alertAt 2) [''tokenA''], FcmSend (alertAt 2)]"
proof -
  have none: "fcmTokensOf (activeTokenDocs (deviceId (alertAt 2)) lockedWorld) = []"
    by (simp add: activeTokenDocs_def fcmTokensOf_def lockedWorld_fields)
  have one: "fcmTokensOf (activeTokenDocs (deviceId (alertAt 2)) registeredWorld) = [''tokenA'']"
    by (simp add: alertAt_fields registeredWorld_facts)
  have yes: "fst (sendMovementAlertNotification testEnv (alertAt 2) registeredWorld)"
    by (simp add: sendMAN_fst one)
  show ?thesis
    using none overall_success_direct_only [of "alertAt 2" lockedWorld testEnv]
      overall_success_direct_only [of "alertAt 2" registeredWorld testEnv] yes
    by (simp add: one)
qed

text \<open>
  The claim as it is written fails: with no token registered the topic message of the
  dispatch goes through, and the dispatch still reports failure.
\<close>

theorem overall_success_counterexample:
  "fst (sendFCMNotification testEnv (alertAt 2)
          (turnOnMovementAlertLED testEnv (deviceId (alertAt 2)) lockedWorld)) \<and>
   \<not> fst (sendMovementAlertNotification testEnv (alertAt 2) lockedWorld)"
proof -
  have "fcmTokensOf (activeTokenDocs (deviceId (alertAt 2)) lockedWorld) = []"
    by (simp add: activeTokenDocs_def fcmTokensOf_def lockedWorld_fields)
  then show ?thesis
    by (simp add: sendMAN_fst sendFCM_eq testEnv_def)
qed

text \<open>
  The other direction fails too: with a token registered, a dispatch where the multicast
  fails for every token and the topic send fails as well still reports success.
\<close>

lemma success_reported_when_all_sends_fail:
  "fst (sendMovementAlertNotification failingEnv (alertAt 2) registeredWorld) \<and>
   \<not> fst (sendFCMNotification failingEnv (alertAt 2) w) \<and>
   filter (fcmTokenOk failingEnv n) [''tokenA''] = []"
  by (simp add: sendMAN_fst alertAt_fields registeredWorld_facts sendFCM_eq
      failingEnv_def)

lemma turnOff_eq:
  "runCallback e (TurnOffLED dev) w = w\<lparr>effects := effects w @ [NrfPatch dev 60 ledOffConfig]\<rparr>"
  by (simp add: turnOffLED_def controlNRFCloudLED_def)

lemma indicator_listingTrace:
  "filter isIndicator (listingTrace d w picked) =
     concat (map (\<lambda>a. activation d @ activation (deviceId a)) picked)"
  by (induction picked) (simp_all add: listingTrace_def)

lemma listing_new_effects:
  "newEffects w (snd (getMovementAlerts e req w)) =
     listingTrace (listingDevice e req) w (highDistanceAlerts (queryAlerts e req w))"
  by (rule newEffects_append) (simp add: getMovementAlerts_def Let_def notifyAlerts_effects)

text \<open>
  Claim C7, as the code has it. One indicator activation makes the PATCH with the fixed
  pattern of 5 repetitions and then sets exactly one timer of 60000 ms, whatever the
  PATCH returned; the callback of that timer is the deactivation: when it runs it makes
  one PATCH of the same device with the all-zero pattern. A movement event is followed by
  two activations, not one: a scheduled check that detects a movement activates the
  indicator itself and the dispatcher it then calls activates it again; every listing
  does the same for each alert it dispatches.
\<close>

theorem indicator_activation:
  "turnOnMovementAlertLED e' dev w' =
     w'\<lparr>effects := effects w' @
        [NrfPatch dev 60 ledAlertConfig, SetTimeout 60000 (TurnOffLED dev)]\<rparr> \<and>
   repetitions ledAlertConfig = 5 \<and>
   timers (newEffects w' (turnOnMovementAlertLED e' dev w')) = [(60000, TurnOffLED dev)] \<and>
   runCallback e'' (TurnOffLED dev) w'' =
     w''\<lparr>effects := effects w'' @ [NrfPatch dev 60 ledOffConfig]\<rparr> \<and>
   ledOffConfig = \<lparr>red = 0, green = 0, blue = 0, duration_on_msec = 0,
     duration_off_msec = 0, repetitions = 0\<rparr> \<and>
   (locked_locations w (DEVICE_ID e) = Some l \<and>
    nrfLocationHistory e (length (effects w)) = Some (p # ps) \<and>
    lat p \<noteq> 0 \<and> lon p \<noteq> 0 \<and>
    moved (calculateDistance (lat (location l)) (lon (location l)) (lat p) (lon p)) \<longrightarrow>
      filter isIndicator (newEffects w (scheduledLocationHistory e w)) =
        activation (DEVICE_ID e) @ activation (DEVICE_ID e)) \<and>
   filter isIndicator (newEffects w (snd (getMovementAlerts e req w))) =
     concat (map (\<lambda>a. activation (listingDevice e req) @ activation (deviceId a))
       (highDistanceAlerts (queryAlerts e req w)))"
proof -
  have one: "turnOnMovementAlertLED e' dev w' =
      w'\<lparr>effects := effects w' @
        [NrfPatch dev 60 ledAlertConfig, SetTimeout 60000 (TurnOffLED dev)]\<rparr>"
    by (simp add: turnOn_eq activation_def)
  have five: "repetitions ledAlertConfig = 5"
    by (simp add: ledAlertConfig_def)
  have "newEffects w' (turnOnMovementAlertLED e' dev w') = activation dev"
    by (rule newEffects_append) (simp add: turnOn_eq)
  then have timer: "timers (newEffects w' (turnOnMovementAlertLED e' dev w')) =
      [(60000, TurnOffLED dev)]"
    by (simp add: activation_def)
  have off: "runCallback e'' (TurnOffLED dev) w'' =
     w''\<lparr>effects := effects w'' @ [NrfPatch dev 60 ledOffConfig]\<rparr>"
    by (rule turnOff_eq)
  have zero: "ledOffConfig = \<lparr>red = 0, green = 0, blue = 0, duration_on_msec = 0,
     duration_off_msec = 0, repetitions = 0\<rparr>"
    by (simp add: ledOffConfig_def)
  have tick: "filter isIndicator (newEffects w (scheduledLocationHistory e w)) =
      activation (DEVICE_ID e) @ activation (DEVICE_ID e)"
    if lock: "locked_locations w (DEVICE_ID e) = Some l"
      and fetch: "nrfLocationHistory e (length (effects w)) = Some (p # ps)"
      and nz: "lat p \<noteq> 0" "lon p \<noteq> 0"
      and mv: "moved (calculateDistance (lat (location l)) (lon (location l)) (lat p) (lon p))"
  proof -
    have "newEffects w (scheduledLocationHistory e w) =
      [NrfGetHistory (DEVICE_ID e)] @ activation (DEVICE_ID e) @ activation (DEVICE_ID e) @
        multicastCall (newMovementAlert e l p
            (calculateDistance (lat (location l)) (lon (location l)) (lat p) (lon p)))
          (fcmTokensOf (activeTokenDocs (DEVICE_ID e) w)) @
        [FcmSend (newMovementAlert e l p
            (calculateDistance (lat (location l)) (lon (location l)) (lat p) (lon p)))]"
      by (rule newEffects_append) (rule tick_moved(1) [OF lock fetch nz mv])
    then show ?thesis by simp
  qed
  have listing: "filter isIndicator (newEffects w (snd (getMovementAlerts e req w))) =
      concat (map (\<lambda>a. activation (listingDevice e req) @ activation (deviceId a))
        (highDistanceAlerts (queryAlerts e req w)))"
    by (simp add: listing_new_effects indicator_listingTrace)
  show ?thesis using one five timer off zero tick listing by blast
qed

theorem indicator_activation_witness:
  "locked_locations lockedWorld (DEVICE_ID (reportAt (31864 / 31855))) = Some lockedData \<and>
   moved (calculateDistance 1 1 (31864 / 31855) 1) \<and>
   filter isIndicator (newEffects lockedWorld (checkedWorld (31864 / 31855))) =
     [NrfPatch ''dev1'' 60 ledAlertConfig, SetTimeout 60000 (TurnOffLED ''dev1''),
      NrfPatch ''dev1'' 60 ledAlertConfig, SetTimeout 60000 (TurnOffLED ''dev1'')] \<and>
   \<not> fst (controlNRFCloudLED failingEnv ''dev1'' ledAlertConfig emptyWorld) \<and>
   turnOnMovementAlertLED failingEnv ''dev1'' emptyWorld =
     emptyWorld\<lparr>effects :=
       [NrfPatch ''dev1'' 60 ledAlertConfig, SetTimeout 60000 (TurnOffLED ''dev1'')]\<rparr> \<and>
   runCallback failingEnv (TurnOffLED ''dev1'') emptyWorld =
     emptyWorld\<lparr>effects := [NrfPatch ''dev1'' 60 ledOffConfig]\<rparr>"
proof -
  have lock: "locked_locations lockedWorld (DEVICE_ID (reportAt (31864 / 31855))) = Some lockedData"
    by (simp add: reportAt_fields lockedWorld_lock)
  have fetch: "nrfLocationHistory (reportAt (31864 / 31855)) (length (effects lockedWorld)) =
      Some (\<lparr>lat = 31864 / 31855, lon = 1\<rparr> # [])"
    by (simp add: reportAt_fields)
  have nz: "lat \<lparr>lat = 31864 / 31855 :: real, lon = 1 :: real\<rparr> \<noteq> 0"
    "lon \<lparr>lat = 31864 / 31855 :: real, lon = 1 :: real\<rparr> \<noteq> 0"
    by simp_all
  have mv: "moved (calculateDistance 1 1 (31864 / 31855) 1)"
    using test_distances by (simp add: moved_def)
  have mv': "moved (calculateDistance (lat (location lockedData)) (lon (location lockedData))
      (lat \<lparr>lat = 31864 / 31855, lon = 1\<rparr>) (lon \<lparr>lat = 31864 / 31855, lon = 1::real\<rparr>))"
    using mv by (simp add: lock_position)
  note T = indicator_activation [of failingEnv "''dev1''" emptyWorld failingEnv emptyWorld
      lockedWorld "reportAt (31864 / 31855)" lockedData "\<lparr>lat = 31864 / 31855, lon = 1\<rparr>" "[]"]
  have a: "filter isIndicator (newEffects lockedWorld (checkedWorld (31864 / 31855))) =
     [NrfPatch ''dev1'' 60 ledAlertConfig, SetTimeout 60000 (TurnOffLED ''dev1''),
      NrfPatch ''dev1'' 60 ledAlertConfig, SetTimeout 60000 (TurnOffLED ''dev1'')]"
    using T lock fetch nz mv'
    by (simp add: checkedWorld_def reportAt_fields activation_def)
  have b: "runCallback failingEnv (TurnOffLED ''dev1'') emptyWorld =
     emptyWorld\<lparr>effects := [NrfPatch ''dev1'' 60 ledOffConfig]\<rparr>"
    using T by (simp add: emptyWorld_def)
  have c: "turnOnMovementAlertLED failingEnv ''dev1'' emptyWorld =
     emptyWorld\<lparr>effects :=
       [NrfPatch ''dev1'' 60 ledAlertConfig, SetTimeout 60000 (TurnOffLED ''dev1'')]\<rparr>"
    using T by (simp add: emptyWorld_def)
  have d: "\<not> fst (controlNRFCloudLED failingEnv ''dev1'' ledAlertConfig emptyWorld)"
    by (simp add: controlNRFCloudLED_def failingEnv_def)
  show ?thesis using lock mv a b c d by simp
qed

text \<open>
  The claim as it is written fails: one scheduled check that detects one movement (it
  stores one alert) sends the pattern twice and sets two timers.
\<close>

theorem indicator_activation_counterexample:
  "length (movement_alerts (checkedWorld (31864 / 31855))) = 1 \<and>
   count_list (effects (checkedWorld (31864 / 31855))) (NrfPatch ''dev1'' 60 ledAlertConfig) = 2 \<and>
   count_list (effects (checkedWorld (31864 / 31855))) (SetTimeout 60000 (TurnOffLED ''dev1'')) = 2"
  using checkedWorld_facts [of "31864 / 31855"] test_distances
  by (simp add: activation_def)

section \<open>Token registration\<close>

lemma map_of_filter_key:
  "map_of (filter (\<lambda>d. fst d \<noteq> k) ds) k' = (if k' = k then None else map_of ds k')"
  by (induction ds) auto

lemma map_of_docSet:
  "map_of (docSet k v ds) k' = (if k' = k then Some v else map_of ds k')"
  by (cases "map_of ds k'") (simp_all add: docSet_def map_of_filter_key map_add_def)

lemma keys_docSet:
  "map fst (docSet k v ds) = filter (\<lambda>j. j \<noteq> k) (map fst ds) @ [k]"
  by (simp add: docSet_def filter_map comp_def)

lemma count_docSet: "length (filter (\<lambda>d. fst d = k) (docSet k v ds)) = 1"
proof -
  have "filter (\<lambda>d. fst d = k) (filter (\<lambda>d. fst d \<noteq> k) ds) = []"
    by (induction ds) auto
  then show ?thesis by (simp add: docSet_def)
qed

lemma distinct_docSet:
  "distinct (map fst ds) \<Longrightarrow> distinct (map fst (docSet k v ds))"
  by (simp add: keys_docSet)

lemma tokenId_same_device:
  "(tokenId dev t1 = tokenId dev t2) = (take 20 t1 = take 20 t2)"
  by (simp add: tokenId_def)

lemma register_tokens:
  assumes "r_deviceId req \<noteq> []" and "r_fcmToken req \<noteq> []"
  shows "user_push_tokens (snd (registerFCMToken e req w)) =
           docSet (tokenId (r_deviceId req) (r_fcmToken req)) (tokenDocument e req)
             (user_push_tokens w)"
  using assms by (simp add: registerFCMToken_def Let_def)

lemma tokenDocument_fields:
  "pushToken (tokenDocument e req) = r_fcmToken req"
  "t_deviceId (tokenDocument e req) = r_deviceId req"
  "active (tokenDocument e req)"
  by (simp_all add: tokenDocument_def)

text \<open>
  Claim C9, as the code has it. A token document is stored under the id made of the
  device and of the first 20 characters of the token. Registrations keep the document
  ids unique; registering the same pair twice leaves one document for it; and two tokens
  of one device that differ within their first 20 characters are both kept, each under
  its own id.
\<close>

theorem token_documents_keyed_by_prefix:
  assumes "r_deviceId r1 = dev" and "r_deviceId r2 = dev" and "dev \<noteq> []"
    and "r_fcmToken r1 \<noteq> []" and "r_fcmToken r2 \<noteq> []"
  shows "let w1 = snd (registerFCMToken e1 r1 w);
             w2 = snd (registerFCMToken e2 r2 w1)
         in (distinct (map fst (user_push_tokens w)) \<longrightarrow>
               distinct (map fst (user_push_tokens w2))) \<and>
            (r_fcmToken r1 = r_fcmToken r2 \<longrightarrow>
               map fst (user_push_tokens w2) = map fst (user_push_tokens w1) \<and>
               length (filter (\<lambda>d. fst d = tokenId dev (r_fcmToken r1)) (user_push_tokens w2)) = 1 \<and>
               map_option pushToken (map_of (user_push_tokens w2) (tokenId dev (r_fcmToken r1))) =
                 Some (r_fcmToken r1)) \<and>
            (take 20 (r_fcmToken r1) \<noteq> take 20 (r_fcmToken r2) \<longrightarrow>
               map_option pushToken (map_of (user_push_tokens w2) (tokenId dev (r_fcmToken r1))) =
                 Some (r_fcmToken r1) \<and>
               map_option pushToken (map_of (user_push_tokens w2) (tokenId dev (r_fcmToken r2))) =
                 Some (r_fcmToken r2))"
proof -
  define w1 where "w1 = snd (registerFCMToken e1 r1 w)"
  define w2 where "w2 = snd (registerFCMToken e2 r2 w1)"
  define v1 where "v1 = tokenDocument e1 r1"
  define v2 where "v2 = tokenDocument e2 r2"
  have v1: "pushToken v1 = r_fcmToken r1" and v2: "pushToken v2 = r_fcmToken r2"
    by (simp_all add: v1_def v2_def tokenDocument_fields)
  have t1: "user_push_tokens w1 = docSet (tokenId dev (r_fcmToken r1)) v1 (user_push_tokens w)"
    using register_tokens [of r1 e1 w] assms by (simp add: w1_def v1_def)
  have t2: "user_push_tokens w2 = docSet (tokenId dev (r_fcmToken r2)) v2 (user_push_tokens w1)"
    using register_tokens [of r2 e2 w1] assms by (simp add: w2_def v2_def)
  have d: "distinct (map fst (user_push_tokens w2))" if "distinct (map fst (user_push_tokens w))"
    unfolding t2 t1 using that by (intro distinct_docSet)
  have same: "map fst (user_push_tokens w2) = map fst (user_push_tokens w1) \<and>
      length (filter (\<lambda>d. fst d = tokenId dev (r_fcmToken r1)) (user_push_tokens w2)) = 1 \<and>
      map_option pushToken (map_of (user_push_tokens w2) (tokenId dev (r_fcmToken r1))) =
        Some (r_fcmToken r1)"
    if "r_fcmToken r1 = r_fcmToken r2"
  proof -
    have "map fst (user_push_tokens w2) = map fst (user_push_tokens w1)"
      unfolding t2 t1 that by (simp add: keys_docSet)
    moreover have "length (filter (\<lambda>d. fst d = tokenId dev (r_fcmToken r1))
        (user_push_tokens w2)) = 1"
      unfolding t2 that by (rule count_docSet)
    moreover have "map_option pushToken
        (map_of (user_push_tokens w2) (tokenId dev (r_fcmToken r1))) = Some (r_fcmToken r1)"
      unfolding t2 using that v2 by (simp add: map_of_docSet)
    ultimately show ?thesis by simp
  qed
  have both: "map_option pushToken (map_of (user_push_tokens w2) (tokenId dev (r_fcmToken r1))) =
        Some (r_fcmToken r1) \<and>
      map_option pushToken (map_of (user_push_tokens w2) (tokenId dev (r_fcmToken r2))) =
        Some (r_fcmToken r2)"
    if "take 20 (r_fcmToken r1) \<noteq> take 20 (r_fcmToken r2)"
    unfolding t2 t1 using that v1 v2 by (simp add: map_of_docSet tokenId_same_device)
  show ?thesis
    unfolding Let_def w1_def [symmetric] w2_def [symmetric]
    using d same both by blast
qed

lemma registration_fields:
  "r_deviceId (registration tok) = ''dev1''"
  "r_fcmToken (registration tok) = tok"
  by (simp_all add: registration_def)

theorem token_documents_keyed_by_prefix_witness:
  "map fst (user_push_tokens
      (snd (registerFCMToken testEnv (registration ''tokenA'')
        (snd (registerFCMToken testEnv (registration ''tokenA'') emptyWorld))))) =
     [''dev1_tokenA''] \<and>
   map_option pushToken (map_of (user_push_tokens
      (snd (registerFCMToken testEnv (registration ''tokenB'')
        (snd (registerFCMToken testEnv (registration ''tokenA'') emptyWorld)))))
      ''dev1_tokenA'') = Some ''tokenA'' \<and>
   map_option pushToken (map_of (user_push_tokens
      (snd (registerFCMToken testEnv (registration ''tokenB'')
        (snd (registerFCMToken testEnv (registration ''tokenA'') emptyWorld)))))
      ''dev1_tokenB'') = Some ''tokenB''"
proof -
  have first: "map fst (user_push_tokens
      (snd (registerFCMToken testEnv (registration ''tokenA'') emptyWorld))) = [''dev1_tokenA'']"
    by (simp add: registerFCMToken_def registration_def Let_def docSet_def tokenId_def
        emptyWorld_def isExpoToken_def)
  have ne: "''dev1'' \<noteq> []" "''tokenA'' \<noteq> []" "''tokenB'' \<noteq> []" by simp_all
  have AA: "map fst (user_push_tokens
      (snd (registerFCMToken testEnv (registration ''tokenA'')
        (snd (registerFCMToken testEnv (registration ''tokenA'') emptyWorld))))) =
     [''dev1_tokenA'']"
    using token_documents_keyed_by_prefix
      [of "registration ''tokenA''" "''dev1''" "registration ''tokenA''" testEnv emptyWorld testEnv]
    by (simp add: registration_fields Let_def first)
  have AB: "map_option pushToken (map_of (user_push_tokens
      (snd (registerFCMToken testEnv (registration ''tokenB'')
        (snd (registerFCMToken testEnv (registration ''tokenA'') emptyWorld)))))
      ''dev1_tokenA'') = Some ''tokenA'' \<and>
   map_option pushToken (map_of (user_push_tokens
      (snd (registerFCMToken testEnv (registration ''tokenB'')
        (snd (registerFCMToken testEnv (registration ''tokenA'') emptyWorld)))))
      ''dev1_tokenB'') = Some ''tokenB''"
    using token_documents_keyed_by_prefix
      [of "registration ''tokenA''" "''dev1''" "registration ''tokenB''" testEnv emptyWorld testEnv]
    by (simp add: registration_fields Let_def tokenId_def)
  show ?thesis using AA AB by simp
qed

text \<open>
  The claim as it is written fails: two distinct tokens of one device that agree on their
  first 20 characters get the same document id, and the second registration overwrites
  the first.
\<close>

theorem token_overwrite_counterexample:
  "''ExponentPushToken[aaaa]'' \<noteq> ''ExponentPushToken[aabb]'' \<and>
   map (pushToken \<circ> snd) (user_push_tokens
      (snd (registerFCMToken testEnv (registration ''ExponentPushToken[aabb]'')
        (snd (registerFCMToken testEnv (registration ''ExponentPushToken[aaaa]'') emptyWorld))))) =
     [''ExponentPushToken[aabb]'']"
  by (simp add: registerFCMToken_def registration_def Let_def docSet_def tokenId_def
      emptyWorld_def tokenDocument_def)

section \<open>Listings, one after the other and overlapping\<close>

lemma listing_world:
  "snd (getMovementAlerts e req w) =
     notifyAlerts e (listingDevice e req) (highDistanceAlerts (queryAlerts e req w)) w"
  by (simp add: getMovementAlerts_def Let_def)

lemma queryAlerts_alerts:
  "movement_alerts w' = movement_alerts w \<Longrightarrow> queryAlerts e req w' = queryAlerts e req w"
  by (simp add: queryAlerts_def)

lemma queryAlerts_source:
  assumes "a \<in> set (queryAlerts e req w)"
  shows "deviceId a = listingDevice e req"
    and "\<exists>x \<in> set (movement_alerts w). a = (snd x)\<lparr>alert_id := Some (fst x)\<rparr>"
proof -
  from assms obtain x where x: "x \<in> set (take (if a_limit req = 0 then 10 else a_limit req)
        (filter (\<lambda>(i, a). deviceId a = listingDevice e req \<and>
                   (case severityFilter (a_severity req) of
                      None \<Rightarrow> True | Some s \<Rightarrow> severity a = s))
           (movement_alerts w)))"
    and a: "a = (snd x)\<lparr>alert_id := Some (fst x)\<rparr>"
    by (auto simp: queryAlerts_def Let_def split_def)
  from x have f: "x \<in> set (filter (\<lambda>(i, a). deviceId a = listingDevice e req \<and>
                   (case severityFilter (a_severity req) of
                      None \<Rightarrow> True | Some s \<Rightarrow> severity a = s))
           (movement_alerts w))"
    by (rule in_set_takeD)
  then show "deviceId a = listingDevice e req" using a by (auto simp: split_def)
  from f a show "\<exists>x \<in> set (movement_alerts w). a = (snd x)\<lparr>alert_id := Some (fst x)\<rparr>"
    by auto
qed

lemma highDistanceAlerts_set:
  "(a \<in> set (highDistanceAlerts found)) =
     (a \<in> set found \<and> distance a \<noteq> 0 \<and> 10 < distance a \<and> \<not> notificationSent a \<and>
      severity a \<noteq> low)"
  by (auto simp: highDistanceAlerts_def)

lemma picked_device:
  "a \<in> set (highDistanceAlerts (queryAlerts e req w)) \<Longrightarrow> deviceId a = listingDevice e req"
  using queryAlerts_source(1) [of a e req w] by (simp add: highDistanceAlerts_set)

lemma notifiedIds_none:
  assumes "\<And>a. a \<in> set picked \<Longrightarrow> fcmTokensOf (activeTokenDocs (deviceId a) w) = []"
  shows "notifiedIds w picked = []"
  using assms by (induction picked) (simp_all add: notifiedIds_def split: option.splits)

lemma listingTrace_none:
  assumes "\<And>a. a \<in> set picked \<Longrightarrow> deviceId a = dev"
    and "fcmTokensOf (activeTokenDocs dev w) = []"
  shows "listingTrace dev w picked =
     concat (map (\<lambda>a. activation dev @ activation dev @ [FcmSend a]) picked)"
  using assms(1)
  by (induction picked)
    (simp_all add: listingTrace_def dispatchTrace_def assms(2) multicastCall_def)

text \<open>One listing for a device without an active FCM token.\<close>

lemma listing_no_tokens:
  assumes "fcmTokensOf (activeTokenDocs (listingDevice e req) w) = []"
  shows "movement_alerts (snd (getMovementAlerts e req w)) = movement_alerts w"
    and "user_push_tokens (snd (getMovementAlerts e req w)) = user_push_tokens w"
    and "effects (snd (getMovementAlerts e req w)) = effects w @
      concat (map (\<lambda>a. activation (listingDevice e req) @ activation (listingDevice e req) @
                     [FcmSend a])
        (highDistanceAlerts (queryAlerts e req w)))"
proof -
  have none: "fcmTokensOf (activeTokenDocs (deviceId a) w) = []"
    if "a \<in> set (highDistanceAlerts (queryAlerts e req w))" for a
    using picked_device [OF that] assms by simp
  show "movement_alerts (snd (getMovementAlerts e req w)) = movement_alerts w"
    using notifiedIds_none [of "highDistanceAlerts (queryAlerts e req w)" w, OF none]
    by (simp add: listing_world notifyAlerts_alerts)
  show "user_push_tokens (snd (getMovementAlerts e req w)) = user_push_tokens w"
    unfolding listing_world by (rule notifyAlerts_tokens)
  show "effects (snd (getMovementAlerts e req w)) = effects w @
      concat (map (\<lambda>a. activation (listingDevice e req) @ activation (listingDevice e req) @
                     [FcmSend a])
        (highDistanceAlerts (queryAlerts e req w)))"
    unfolding listing_world notifyAlerts_effects
    using listingTrace_none [OF picked_device assms] by simp
qed

lemma listings_no_tokens:
  assumes "fcmTokensOf (activeTokenDocs (listingDevice e req) w) = []"
  shows "movement_alerts (listings n e req w) = movement_alerts w \<and>
     user_push_tokens (listings n e req w) = user_push_tokens w \<and>
     effects (listings n e req w) = effects w @
       concat (replicate n
         (concat (map (\<lambda>a. activation (listingDevice e req) @ activation (listingDevice e req) @
                         [FcmSend a])
            (highDistanceAlerts (queryAlerts e req w)))))"
  using assms
proof (induction n arbitrary: w)
  case 0
  show ?case by simp
next
  case (Suc n)
  let ?w = "snd (getMovementAlerts e req w)"
  note one = listing_no_tokens [OF Suc.prems]
  have none: "fcmTokensOf (activeTokenDocs (listingDevice e req) ?w) = []"
    using Suc.prems activeTokenDocs_tokens [OF one(2)] by simp
  have q: "queryAlerts e req ?w = queryAlerts e req w"
    by (rule queryAlerts_alerts) (rule one(1))
  show ?case
    using Suc.IH [OF none] by (simp add: one q)
qed

lemma topicSends_rounds:
  "topicSends (concat (map (\<lambda>a. activation d @ activation d @ [FcmSend a]) picked)) = picked"
  by (induction picked) (simp_all add: topicSends_append)

lemma topicSends_replicate:
  "topicSends (concat (replicate n es)) = concat (replicate n (topicSends es))"
  by (induction n) (simp_all add: topicSends_append)

lemma indicator_rounds:
  "filter isIndicator (concat (map (\<lambda>a. activation d @ activation d @ [FcmSend a]) picked)) =
     concat (map (\<lambda>a. activation d @ activation d) picked)"
  by (induction picked) simp_all

lemma tick_no_tokens_alerts:
  assumes "fcmTokensOf (activeTokenDocs (DEVICE_ID e) w) = []"
    and "x \<in> set (movement_alerts (scheduledLocationHistory e w))"
    and "notificationSent (snd x)"
  shows "x \<in> set (movement_alerts w)"
proof -
  have dev: "deviceId (newMovementAlert e l p d) = DEVICE_ID e" for l p d
    by (simp add: newMovementAlert_def)
  have fail: "\<not> fst (sendMovementAlertNotification e (newMovementAlert e l p d) w')"
    if "user_push_tokens w' = user_push_tokens w" for w' l p d
    using assms(1) activeTokenDocs_tokens [OF that] by (simp add: sendMAN_fst dev)
  have unsent: "\<not> notificationSent (newMovementAlert e l p d)" for l p d
    by (simp add: newMovementAlert_def)
  show ?thesis
    using assms(2,3) unsent
    by (auto simp: scheduledLocationHistory_def Let_def split_beta turnOn_eq fail
        sendMAN_fields split: option.splits list.splits if_splits)
qed

text \<open>
  Claim C10, as the code has it. A dispatch reports failure exactly when the device of
  the alert has no active FCM token: with no token at all, and also when all its tokens
  are Expo tokens, whatever the topic send returns. For such a device neither the
  scheduled check nor a listing ever sets the notified flag of an alert. Each listing
  then dispatches again, with two indicator activations each, exactly the alerts its
  query returns that are not of low severity (and have a distance above 10): after \<open>n\<close>
  listings each of them has been sent \<open>n\<close> times, for every \<open>n\<close>. An alert of low
  severity, or one the query does not return, is not dispatched again.
\<close>

theorem failed_dispatch_repeats:
  assumes "fcmTokensOf (activeTokenDocs (listingDevice e req) w) = []"
  shows "(\<forall>a e'. deviceId a = listingDevice e req \<longrightarrow>
            \<not> fst (sendMovementAlertNotification e' a w)) \<and>
     (activeTokenDocs (listingDevice e req) w = [] \<longrightarrow>
        fcmTokensOf (activeTokenDocs (listingDevice e req) w) = []) \<and>
     movement_alerts (listings n e req w) = movement_alerts w \<and>
     topicSends (newEffects w (listings n e req w)) =
       concat (replicate n (highDistanceAlerts (queryAlerts e req w))) \<and>
     filter isIndicator (newEffects w (listings n e req w)) =
       concat (replicate n (concat (map
         (\<lambda>a. activation (listingDevice e req) @ activation (listingDevice e req))
         (highDistanceAlerts (queryAlerts e req w))))) \<and>
     (\<forall>a. (a \<in> set (highDistanceAlerts (queryAlerts e req w))) =
        (a \<in> set (queryAlerts e req w) \<and> distance a \<noteq> 0 \<and> 10 < distance a \<and>
         \<not> notificationSent a \<and> severity a \<noteq> low)) \<and>
     (listingDevice e req = DEVICE_ID e \<longrightarrow>
        (\<forall>x \<in> set (movement_alerts (scheduledLocationHistory e w)).
           notificationSent (snd x) \<longrightarrow> x \<in> set (movement_alerts w)))"
proof -
  note L = listings_no_tokens [OF assms, of n]
  have fails: "\<forall>a e'. deviceId a = listingDevice e req \<longrightarrow>
            \<not> fst (sendMovementAlertNotification e' a w)"
    using assms by (simp add: sendMAN_fst)
  have zero: "activeTokenDocs (listingDevice e req) w = [] \<longrightarrow>
        fcmTokensOf (activeTokenDocs (listingDevice e req) w) = []"
    by (simp add: fcmTokensOf_def)
  have new: "newEffects w (listings n e req w) =
      concat (replicate n
         (concat (map (\<lambda>a. activation (listingDevice e req) @ activation (listingDevice e req) @
                         [FcmSend a])
            (highDistanceAlerts (queryAlerts e req w)))))"
    by (rule newEffects_append) (simp add: L)
  have sends: "topicSends (newEffects w (listings n e req w)) =
       concat (replicate n (highDistanceAlerts (queryAlerts e req w)))"
    unfolding new by (simp add: topicSends_replicate topicSends_rounds)
  have ind: "filter isIndicator (newEffects w (listings n e req w)) =
       concat (replicate n (concat (map
         (\<lambda>a. activation (listingDevice e req) @ activation (listingDevice e req))
         (highDistanceAlerts (queryAlerts e req w)))))"
    unfolding new
    by (induction n) (simp_all add: indicator_rounds)
  have tick: "\<forall>x \<in> set (movement_alerts (scheduledLocationHistory e w)).
           notificationSent (snd x) \<longrightarrow> x \<in> set (movement_alerts w)"
    if "listingDevice e req = DEVICE_ID e"
    using tick_no_tokens_alerts [of e w] assms that by auto
  show ?thesis
    using L fails zero sends ind tick highDistanceAlerts_set by blast
qed

text \<open>The example stores, as a listing sees them.\<close>

lemma listAll_device: "listingDevice testEnv listAll = ''dev1''"
  by (simp add: listingDevice_def listAll_def orElse_def testEnv_def)

lemma query_single:
  assumes "movement_alerts w = [(0, a)]" and "deviceId a = ''dev1''"
  shows "queryAlerts testEnv listAll w = [a\<lparr>alert_id := Some 0\<rparr>]"
  using assms
  by (simp add: queryAlerts_def Let_def listAll_device)
    (simp add: listAll_def severityFilter_def)

lemma picked_medium:
  "highDistanceAlerts [storedAlert (31864 / 31855)] = [storedAlert (31864 / 31855)]"
  using test_distances
  by (simp add: highDistanceAlerts_def storedAlert_def alertAt_fields severityOf_def)

lemma picked_low: "highDistanceAlerts [storedAlert (159293 / 159275)] = []"
  using test_distances
  by (simp add: highDistanceAlerts_def storedAlert_def alertAt_fields severityOf_def)

lemma checkedWorld_query:
  assumes "x \<noteq> 0" and "10 < calculateDistance 1 1 x 1"
  shows "queryAlerts testEnv listAll (checkedWorld x) = [storedAlert x]"
  using query_single [OF checkedWorld_facts(1) [OF assms] alertAt_fields(1)]
  by (simp add: storedAlert_def)

lemma checkedWorld_no_tokens:
  assumes "x \<noteq> 0" and "10 < calculateDistance 1 1 x 1"
  shows "activeTokenDocs ''dev1'' (checkedWorld x) = []"
  by (simp add: activeTokenDocs_def checkedWorld_facts(2) [OF assms])


text \<open>The example store where the only token of the device is an Expo token.\<close>

lemma expoWorld_facts:
  "map (tokenType \<circ> snd) (activeTokenDocs ''dev1'' expoWorld) = [expo]"
  "fcmTokensOf (activeTokenDocs ''dev1'' expoWorld) = []"
  "movement_alerts expoWorld = [(0, alertAt (31864 / 31855))]"
proof -
  have c: "user_push_tokens (checkedWorld (31864 / 31855)) = []"
    "movement_alerts (checkedWorld (31864 / 31855)) = [(0, alertAt (31864 / 31855))]"
    using checkedWorld_facts [of "31864 / 31855"] test_distances by simp_all
  have t: "user_push_tokens expoWorld =
      [(tokenId ''dev1'' ''ExponentPushToken[abc]'',
        tokenDocument testEnv (registration ''ExponentPushToken[abc]''))]"
    by (simp add: expoWorld_def registerFCMToken_def registration_def Let_def c docSet_def)
  have d: "tokenType (tokenDocument testEnv (registration ''ExponentPushToken[abc]'')) = expo"
    "t_deviceId (tokenDocument testEnv (registration ''ExponentPushToken[abc]'')) = ''dev1''"
    "active (tokenDocument testEnv (registration ''ExponentPushToken[abc]''))"
    by (simp_all add: tokenDocument_def isExpoToken_def registration_def startsWith_def)
  show "map (tokenType \<circ> snd) (activeTokenDocs ''dev1'' expoWorld) = [expo]"
    by (simp add: activeTokenDocs_def t d)
  show "fcmTokensOf (activeTokenDocs ''dev1'' expoWorld) = []"
    by (simp add: activeTokenDocs_def fcmTokensOf_def t d)
  show "movement_alerts expoWorld = [(0, alertAt (31864 / 31855))]"
    by (simp add: expoWorld_def registerFCMToken_def registration_def Let_def c)
qed

lemma expoWorld_query:
  "queryAlerts testEnv listAll expoWorld = [storedAlert (31864 / 31855)]"
  using query_single [OF expoWorld_facts(3) alertAt_fields(1)]
  by (simp add: storedAlert_def)

theorem failed_dispatch_repeats_witness:
  "fcmTokensOf (activeTokenDocs (listingDevice testEnv listAll) (checkedWorld (31864 / 31855))) = [] \<and>
   movement_alerts (listings 3 testEnv listAll (checkedWorld (31864 / 31855))) =
     [(0, alertAt (31864 / 31855))] \<and>
   notificationSent (alertAt (31864 / 31855)) = False \<and>
   topicSends (newEffects (checkedWorld (31864 / 31855))
      (listings 3 testEnv listAll (checkedWorld (31864 / 31855)))) =
     [storedAlert (31864 / 31855), storedAlert (31864 / 31855), storedAlert (31864 / 31855)] \<and>
   map (tokenType \<circ> snd) (activeTokenDocs ''dev1'' expoWorld) = [expo] \<and>
   fcmTokensOf (activeTokenDocs (listingDevice testEnv listAll) expoWorld) = [] \<and>
   movement_alerts (listings 2 testEnv listAll expoWorld) = [(0, alertAt (31864 / 31855))] \<and>
   topicSends (newEffects expoWorld (listings 2 testEnv listAll expoWorld)) =
     [storedAlert (31864 / 31855), storedAlert (31864 / 31855)]"
proof -
  have x: "(31864 / 31855 :: real) \<noteq> 0" "10 < calculateDistance 1 1 (31864 / 31855) 1"
    using test_distances by simp_all
  have none: "fcmTokensOf (activeTokenDocs (listingDevice testEnv listAll)
      (checkedWorld (31864 / 31855))) = []"
    using checkedWorld_no_tokens [OF x] by (simp add: listAll_device fcmTokensOf_def)
  have only: "fcmTokensOf (activeTokenDocs (listingDevice testEnv listAll) expoWorld) = []"
    by (simp add: listAll_device expoWorld_facts)
  have three: "replicate 3 y = [y, y, y]" for y :: "movement_alert list"
    by (simp add: numeral_3_eq_3)
  have two: "replicate 2 y = [y, y]" for y :: "movement_alert list"
    by (simp add: numeral_2_eq_2)
  have A: "movement_alerts (listings 3 testEnv listAll (checkedWorld (31864 / 31855))) =
     [(0, alertAt (31864 / 31855))] \<and>
   topicSends (newEffects (checkedWorld (31864 / 31855))
      (listings 3 testEnv listAll (checkedWorld (31864 / 31855)))) =
     [storedAlert (31864 / 31855), storedAlert (31864 / 31855), storedAlert (31864 / 31855)]"
    using failed_dispatch_repeats [OF none, of 3]
    by (simp add: checkedWorld_query [OF x] picked_medium checkedWorld_facts(1) [OF x] three)
  have B: "movement_alerts (listings 2 testEnv listAll expoWorld) = [(0, alertAt (31864 / 31855))] \<and>
   topicSends (newEffects expoWorld (listings 2 testEnv listAll expoWorld)) =
     [storedAlert (31864 / 31855), storedAlert (31864 / 31855)]"
    using failed_dispatch_repeats [OF only, of 2]
    by (simp add: expoWorld_query picked_medium expoWorld_facts two)
  show ?thesis
    using none only A B by (simp add: alertAt_fields expoWorld_facts)
qed

text \<open>
  The claim as it is written fails: the alert of low severity below belongs to a device
  without tokens and its dispatch by the scheduled check reported failure (it is not
  marked as notified), yet a listing that returns it makes no outside call at all.
\<close>

theorem low_alert_not_repeated_counterexample:
  "activeTokenDocs ''dev1'' (checkedWorld (159293 / 159275)) = [] \<and>
   map (notificationSent \<circ> snd) (movement_alerts (checkedWorld (159293 / 159275))) = [False] \<and>
   map alert_id (alerts (fst (getMovementAlerts testEnv listAll (checkedWorld (159293 / 159275))))) =
     [Some 0] \<and>
   newEffects (checkedWorld (159293 / 159275))
     (snd (getMovementAlerts testEnv listAll (checkedWorld (159293 / 159275)))) = []"
proof -
  have x: "(159293 / 159275 :: real) \<noteq> 0" "10 < calculateDistance 1 1 (159293 / 159275) 1"
    using test_distances by simp_all
  have none: "fcmTokensOf (activeTokenDocs (listingDevice testEnv listAll)
      (checkedWorld (159293 / 159275))) = []"
    using checkedWorld_no_tokens [OF x] by (simp add: listAll_device fcmTokensOf_def)
  have "effects (snd (getMovementAlerts testEnv listAll (checkedWorld (159293 / 159275)))) =
      effects (checkedWorld (159293 / 159275)) @ []"
    using listing_no_tokens(3) [OF none]
    by (simp add: checkedWorld_query [OF x] picked_low)
  then have "newEffects (checkedWorld (159293 / 159275))
     (snd (getMovementAlerts testEnv listAll (checkedWorld (159293 / 159275)))) = []"
    by (rule newEffects_append)
  moreover have "map alert_id
      (alerts (fst (getMovementAlerts testEnv listAll (checkedWorld (159293 / 159275))))) = [Some 0]"
    by (simp add: getMovementAlerts_def Let_def checkedWorld_query [OF x] storedAlert_def)
  ultimately show ?thesis
    using checkedWorld_no_tokens [OF x]
    by (simp add: checkedWorld_facts(1) [OF x] alertAt_fields)
qed











end
